theory Spec2Isabelle
  imports Complex_Main "HOL-Library.Numeral_Type" "HOL-Library.Multiset"
begin

section \<open>Data model of \<^verbatim>\<open>src/theia/sfm/pose/upnp.cc\<close>\<close>

text \<open>
  The solver works on Eigen's fixed-size dense types over \<^verbatim>\<open>double\<close>. A \<^verbatim>\<open>double\<close> is
  read as a real number (exact arithmetic, no rounding and no overflow), and a fixed-size
  matrix as the function from its row and column index to the entry; the index types
  \<^typ>\<open>3\<close> and \<^typ>\<open>10\<close> have exactly 3 and 10 elements, written \<open>0, 1, 2, \<dots>\<close> as in the
  source, and their arithmetic is modulo the size.
\<close>

type_synonym Vector3d = "3 \<Rightarrow> real"
type_synonym Matrix3d = "3 \<Rightarrow> 3 \<Rightarrow> real"
type_synonym Matrix3x10d = "3 \<Rightarrow> 10 \<Rightarrow> real"
type_synonym Matrix10d = "10 \<Rightarrow> 10 \<Rightarrow> real"
type_synonym Vector10d = "10 \<Rightarrow> real"

text \<open>\<^verbatim>\<open>Eigen::Quaterniond(w, x, y, z)\<close>.\<close>

datatype Quaterniond = Quaterniond real real real real

text \<open>
  The only division of the solver is the one by the determinant inside
  \<^verbatim>\<open>h_inverse.inverse()\<close>. Dividing by a zero determinant does not trap in IEEE arithmetic:
  it yields infinities and NaNs, which are not real numbers and which every later sum and
  product hands on. \<open>NonFinite\<close> stands for a vector or matrix all of whose entries are such
  values.
\<close>

datatype 'a fp = Finite 'a | NonFinite

text \<open>
  An output parameter is a pointer, which may be null. \<open>Ptr v\<close> is a valid pointer to an
  object holding \<open>v\<close>.
\<close>

datatype 'a ptr = Null | Ptr 'a

text \<open>
  \<open>CheckFailed\<close>: a glog \<^verbatim>\<open>CHECK_NOTNULL\<close> or \<^verbatim>\<open>CHECK_EQ\<close> fails and aborts the process.
  \<open>OutOfBounds\<close>: \<^verbatim>\<open>operator[]\<close> of a \<^verbatim>\<open>std::vector\<close> is applied to an index that is not
  below its size (undefined behaviour in C++; no check is made).
\<close>

datatype error = CheckFailed | OutOfBounds

definition bind_result :: "error + 'a \<Rightarrow> ('a \<Rightarrow> error + 'b) \<Rightarrow> error + 'b" where
  "bind_result r f = (case r of Inl e \<Rightarrow> Inl e | Inr v \<Rightarrow> f v)"

definition vector_at :: "'a list \<Rightarrow> nat \<Rightarrow> error + 'a" where
  "vector_at xs i = (if i < length xs then Inr (xs ! i) else Inl OutOfBounds)"

text \<open>
  \<^verbatim>\<open>for (int i = start; i < n; ++i) body\<close>, stopping at the first failure of the body. The
  counter is a natural number: sequences are taken to be shorter than \<open>2^31\<close>, where the
  \<^verbatim>\<open>int\<close> counter of the source does not overflow.
\<close>

function for_loop :: "nat \<Rightarrow> nat \<Rightarrow> (nat \<Rightarrow> 's \<Rightarrow> error + 's) \<Rightarrow> 's \<Rightarrow> error + 's" where
  "for_loop i n body s =
     (if i < n
      then (case body i s of Inl e \<Rightarrow> Inl e | Inr s' \<Rightarrow> for_loop (Suc i) n body s')
      else Inr s)"
  by pat_completeness auto
termination
  by (relation "measure (\<lambda>(i, n, body, s). n - i)") auto

subsection \<open>Dense linear algebra\<close>

definition Vector3d :: "real \<Rightarrow> real \<Rightarrow> real \<Rightarrow> Vector3d" where
  "Vector3d a0 a1 a2 = (\<lambda>r. if r = 0 then a0 else if r = 1 then a1 else a2)"

definition Vector10d ::
  "real \<Rightarrow> real \<Rightarrow> real \<Rightarrow> real \<Rightarrow> real \<Rightarrow> real \<Rightarrow> real \<Rightarrow> real \<Rightarrow> real \<Rightarrow> real \<Rightarrow> Vector10d" where
  "Vector10d a0 a1 a2 a3 a4 a5 a6 a7 a8 a9 =
     (\<lambda>c. if c = 0 then a0 else if c = 1 then a1 else if c = 2 then a2
          else if c = 3 then a3 else if c = 4 then a4 else if c = 5 then a5
          else if c = 6 then a6 else if c = 7 then a7 else if c = 8 then a8 else a9)"

definition rows3 :: "('c \<Rightarrow> real) \<Rightarrow> ('c \<Rightarrow> real) \<Rightarrow> ('c \<Rightarrow> real) \<Rightarrow> 3 \<Rightarrow> 'c \<Rightarrow> real" where
  "rows3 row0 row1 row2 = (\<lambda>r. if r = 0 then row0 else if r = 1 then row1 else row2)"

definition Zero_vec :: "'r \<Rightarrow> real" where
  "Zero_vec = (\<lambda>r. 0)"

definition Zero_mat :: "'r \<Rightarrow> 'c \<Rightarrow> real" where
  "Zero_mat = (\<lambda>r c. 0)"

definition Identity :: "'n \<Rightarrow> 'n \<Rightarrow> real" where
  "Identity = (\<lambda>r c. if r = c then 1 else 0)"

definition vec_add :: "('r \<Rightarrow> real) \<Rightarrow> ('r \<Rightarrow> real) \<Rightarrow> 'r \<Rightarrow> real" where
  "vec_add u v = (\<lambda>r. u r + v r)"

definition mat_add :: "('r \<Rightarrow> 'c \<Rightarrow> real) \<Rightarrow> ('r \<Rightarrow> 'c \<Rightarrow> real) \<Rightarrow> 'r \<Rightarrow> 'c \<Rightarrow> real" where
  "mat_add a b = (\<lambda>r c. a r c + b r c)"

definition mat_sub :: "('r \<Rightarrow> 'c \<Rightarrow> real) \<Rightarrow> ('r \<Rightarrow> 'c \<Rightarrow> real) \<Rightarrow> 'r \<Rightarrow> 'c \<Rightarrow> real" where
  "mat_sub a b = (\<lambda>r c. a r c - b r c)"

definition mat_neg :: "('r \<Rightarrow> 'c \<Rightarrow> real) \<Rightarrow> 'r \<Rightarrow> 'c \<Rightarrow> real" where
  "mat_neg a = (\<lambda>r c. - a r c)"

definition mat_scale :: "real \<Rightarrow> ('r \<Rightarrow> 'c \<Rightarrow> real) \<Rightarrow> 'r \<Rightarrow> 'c \<Rightarrow> real" where
  "mat_scale k a = (\<lambda>r c. k * a r c)"

definition transpose_mat :: "('r \<Rightarrow> 'c \<Rightarrow> real) \<Rightarrow> 'c \<Rightarrow> 'r \<Rightarrow> real" where
  "transpose_mat a = (\<lambda>c r. a r c)"

definition mat_mul :: "('r \<Rightarrow> 'k \<Rightarrow> real) \<Rightarrow> ('k::finite \<Rightarrow> 'c \<Rightarrow> real) \<Rightarrow> 'r \<Rightarrow> 'c \<Rightarrow> real" where
  "mat_mul a b = (\<lambda>r c. \<Sum>k\<in>UNIV. a r k * b k c)"

definition mat_vec :: "('r \<Rightarrow> 'k \<Rightarrow> real) \<Rightarrow> ('k::finite \<Rightarrow> real) \<Rightarrow> 'r \<Rightarrow> real" where
  "mat_vec a v = (\<lambda>r. \<Sum>k\<in>UNIV. a r k * v k)"

text \<open>\<^verbatim>\<open>ray * ray.transpose()\<close>: the outer product of two vectors.\<close>

definition outer :: "('r \<Rightarrow> real) \<Rightarrow> ('c \<Rightarrow> real) \<Rightarrow> 'r \<Rightarrow> 'c \<Rightarrow> real" where
  "outer u v = (\<lambda>r c. u r * v c)"

definition squaredNorm :: "('k::finite \<Rightarrow> real) \<Rightarrow> real" where
  "squaredNorm v = (\<Sum>k\<in>UNIV. v k * v k)"

text \<open>
  An operation on values that may be non-finite: a non-finite operand makes the result
  non-finite.
\<close>

fun fp_map :: "('a \<Rightarrow> 'b) \<Rightarrow> 'a fp \<Rightarrow> 'b fp" where
  "fp_map f (Finite a) = Finite (f a)"
| "fp_map f NonFinite = NonFinite"

fun fp_lift2 :: "('a \<Rightarrow> 'b \<Rightarrow> 'c) \<Rightarrow> 'a fp \<Rightarrow> 'b fp \<Rightarrow> 'c fp" where
  "fp_lift2 f (Finite a) (Finite b) = Finite (f a b)"
| "fp_lift2 f _ _ = NonFinite"

text \<open>
  \<^verbatim>\<open>inverse()\<close> of a fixed-size 3x3 matrix belongs to Eigen, not to this repository. Eigen
  computes it in closed form: the cofactors (indices taken modulo 3), the determinant as the
  expansion along column 0, its reciprocal \<^verbatim>\<open>invdet = 1 / det\<close>, and the transposed cofactor
  matrix times \<^verbatim>\<open>invdet\<close>. With a zero determinant \<^verbatim>\<open>invdet\<close> is infinite and every entry of
  the result is an infinity or a NaN.
\<close>

definition cofactor_3x3 :: "Matrix3d \<Rightarrow> 3 \<Rightarrow> 3 \<Rightarrow> real" where
  "cofactor_3x3 m i j =
     m (i + 1) (j + 1) * m (i + 2) (j + 2) - m (i + 1) (j + 2) * m (i + 2) (j + 1)"

definition determinant3 :: "Matrix3d \<Rightarrow> real" where
  "determinant3 m = (\<Sum>i\<in>UNIV. cofactor_3x3 m i 0 * m i 0)"

definition inverse3 :: "Matrix3d \<Rightarrow> Matrix3d fp" where
  "inverse3 m =
     (let det = determinant3 m
      in if det = 0 then NonFinite
         else Finite (let invdet = 1 / det in (\<lambda>r c. cofactor_3x3 m c r * invdet)))"

section \<open>The stages of the solver\<close>

subsection \<open>\<^verbatim>\<open>ComputeHMatrixAndRayDirectionsOuterProducts\<close>\<close>

text \<open>
  The range-based loop appends the outer product of each ray to \<^verbatim>\<open>*outer_products\<close> and
  subtracts \<^verbatim>\<open>outer_products->back()\<close> from \<^verbatim>\<open>h_inverse\<close>. The function returns the inverse
  and the updated vector.
\<close>

definition h_loop_body :: "Vector3d \<Rightarrow> Matrix3d \<times> Matrix3d list \<Rightarrow> Matrix3d \<times> Matrix3d list" where
  "h_loop_body ray s =
     (case s of (h_inverse, outer_products) \<Rightarrow>
        let outer_products' = outer_products @ [outer ray ray]
        in (mat_sub h_inverse (last outer_products'), outer_products'))"

definition ComputeHMatrixAndRayDirectionsOuterProducts ::
  "Vector3d list \<Rightarrow> Matrix3d list ptr \<Rightarrow> error + (Matrix3d fp \<times> Matrix3d list)" where
  "ComputeHMatrixAndRayDirectionsOuterProducts ray_directions outer_products =
     (case outer_products of
        Null \<Rightarrow> Inl CheckFailed
      | Ptr ops \<Rightarrow>
          (case fold h_loop_body ray_directions (Zero_mat, ops) of
             (h_inverse, ops') \<Rightarrow>
               let h_inverse' = mat_add h_inverse
                                  (mat_scale (real (length ray_directions)) Identity)
               in Inr (inverse3 h_inverse', ops')))"

subsection \<open>\<^verbatim>\<open>LeftMultiply\<close>\<close>

text \<open>The thirty assignments \<^verbatim>\<open>phi_mat(r, c) = \<dots>\<close>, row by row.\<close>

definition LeftMultiply :: "Vector3d \<Rightarrow> Matrix3x10d" where
  "LeftMultiply point =
     (let x = point 0; y = point 1; z = point 2
      in rows3
           (Vector10d x x (- x) (- x) 0 (2 * z) (- 2 * y) (2 * y) (2 * z) 0)
           (Vector10d y (- y) y (- y) (- 2 * z) 0 (2 * x) (2 * x) 0 (2 * z))
           (Vector10d z (- z) (- z) z (2 * y) (- 2 * x) 0 0 (2 * x) (2 * y)))"

subsection \<open>\<^verbatim>\<open>ComputeHelperMatrices\<close>\<close>

text \<open>
  The body of the loop at index \<open>i\<close>, on the accumulators \<^verbatim>\<open>*g_matrix\<close> and \<^verbatim>\<open>*j_matrix\<close>.
  The three vectors are indexed in the order of the source: \<^verbatim>\<open>outer_products[i]\<close>,
  \<^verbatim>\<open>world_points[i]\<close>, \<^verbatim>\<open>ray_origins[i]\<close>.
\<close>

definition helper_body ::
  "Vector3d list \<Rightarrow> Vector3d list \<Rightarrow> Matrix3d list \<Rightarrow> Matrix3d fp \<Rightarrow>
   nat \<Rightarrow> Matrix3x10d fp \<times> Vector3d fp \<Rightarrow> error + (Matrix3x10d fp \<times> Vector3d fp)" where
  "helper_body world_points ray_origins outer_products h_matrix i s =
     (case s of (g_matrix, j_matrix) \<Rightarrow>
        bind_result (vector_at outer_products i) (\<lambda>outer_product.
          let v_matrix = fp_lift2 mat_mul h_matrix (Finite (mat_sub outer_product Identity))
          in bind_result (vector_at world_points i) (\<lambda>world_point.
               let left_multiply_mat = LeftMultiply world_point
               in bind_result (vector_at ray_origins i) (\<lambda>ray_origin.
                    let j_matrix' = fp_lift2 vec_add j_matrix
                                      (fp_lift2 mat_vec v_matrix (Finite ray_origin));
                        g_matrix' = fp_lift2 mat_add g_matrix
                                      (fp_lift2 mat_mul v_matrix (Finite left_multiply_mat))
                    in Inr (g_matrix', j_matrix')))))"

text \<open>
  \<^verbatim>\<open>g_matrix\<close> and \<^verbatim>\<open>j_matrix\<close> are written before they are read, so only whether the
  pointers are null matters; the function returns the two objects they point to.
\<close>

definition ComputeHelperMatrices ::
  "Vector3d list \<Rightarrow> Vector3d list \<Rightarrow> Matrix3d list \<Rightarrow> Matrix3d fp \<Rightarrow> 'g ptr \<Rightarrow> 'j ptr \<Rightarrow>
   error + (Matrix3x10d fp \<times> Vector3d fp)" where
  "ComputeHelperMatrices world_points ray_origins outer_products h_matrix g_matrix j_matrix =
     (if length ray_origins \<noteq> length outer_products then Inl CheckFailed
      else case g_matrix of
        Null \<Rightarrow> Inl CheckFailed
      | Ptr _ \<Rightarrow>
          (case j_matrix of
             Null \<Rightarrow> Inl CheckFailed
           | Ptr _ \<Rightarrow>
               for_loop 0 (length ray_origins)
                 (helper_body world_points ray_origins outer_products h_matrix)
                 (Finite Zero_mat, Finite Zero_vec)))"

subsection \<open>\<^verbatim>\<open>ComputeCostMatrices\<close>\<close>

text \<open>
  The body of the loop at index \<open>i\<close>, on \<^verbatim>\<open>*a_matrix\<close>, \<^verbatim>\<open>*b_vector\<close> and \<^verbatim>\<open>gamma\<close>. The
  vectors are indexed in the order \<^verbatim>\<open>world_points[i]\<close>, \<^verbatim>\<open>outer_products[i]\<close>,
  \<^verbatim>\<open>ray_origins[i]\<close>.
\<close>

definition cost_body ::
  "Vector3d list \<Rightarrow> Vector3d list \<Rightarrow> Matrix3d list \<Rightarrow> Matrix3x10d fp \<Rightarrow> Vector3d fp \<Rightarrow>
   nat \<Rightarrow> Matrix10d fp \<times> Vector10d fp \<times> real fp \<Rightarrow>
   error + (Matrix10d fp \<times> Vector10d fp \<times> real fp)" where
  "cost_body world_points ray_origins outer_products g_matrix j_matrix i s =
     (case s of (a_matrix, b_vector, gamma) \<Rightarrow>
        bind_result (vector_at world_points i) (\<lambda>world_point.
          let left_multiply_mat = LeftMultiply world_point
          in bind_result (vector_at outer_products i) (\<lambda>outer_product.
               let outer_prod_minus_identity = mat_sub outer_product Identity;
                   temp_a_mat = fp_lift2 mat_mul (Finite outer_prod_minus_identity)
                                  (fp_lift2 mat_add (Finite left_multiply_mat) g_matrix);
                   a_matrix' = fp_lift2 mat_add a_matrix
                                 (fp_map (\<lambda>ta. mat_mul (transpose_mat ta) ta) temp_a_mat)
               in bind_result (vector_at ray_origins i) (\<lambda>ray_origin.
                    let temp_b_mat = fp_lift2 mat_vec (Finite (mat_neg outer_prod_minus_identity))
                                       (fp_lift2 vec_add (Finite ray_origin) j_matrix);
                        b_vector' = fp_lift2 vec_add b_vector
                                      (fp_lift2 mat_vec (fp_map transpose_mat temp_a_mat)
                                         temp_b_mat);
                        gamma' = fp_lift2 (+) gamma
                                   (fp_map squaredNorm temp_b_mat)
                    in Inr (a_matrix', b_vector', gamma')))))"

definition ComputeCostMatrices ::
  "Vector3d list \<Rightarrow> Vector3d list \<Rightarrow> Matrix3d list \<Rightarrow> Matrix3x10d fp \<Rightarrow> Vector3d fp \<Rightarrow>
   'a ptr \<Rightarrow> 'b ptr \<Rightarrow> error + (Matrix10d fp \<times> Vector10d fp \<times> real fp)" where
  "ComputeCostMatrices world_points ray_origins outer_products g_matrix j_matrix
     a_matrix b_vector =
     (case a_matrix of
        Null \<Rightarrow> Inl CheckFailed
      | Ptr _ \<Rightarrow>
          (case b_vector of
             Null \<Rightarrow> Inl CheckFailed
           | Ptr _ \<Rightarrow>
               for_loop 0 (length world_points)
                 (cost_body world_points ray_origins outer_products g_matrix j_matrix)
                 (Finite Zero_mat, Finite Zero_vec, Finite 0)))"

subsection \<open>\<^verbatim>\<open>Upnp\<close>\<close>

text \<open>
  The three numbered steps of the body of \<^verbatim>\<open>Upnp\<close>, with the values of its locals
  \<^verbatim>\<open>h_matrix\<close>, \<^verbatim>\<open>g_matrix\<close>, \<^verbatim>\<open>j_matrix\<close>, \<^verbatim>\<open>a_matrix\<close>, \<^verbatim>\<open>b_mat\<close> and \<^verbatim>\<open>gamma\<close> when the
  last step returns. \<^verbatim>\<open>outer_products\<close> is a local vector, empty at first; the output
  pointers of the two helper calls are addresses of locals.
\<close>

definition UpnpSteps ::
  "Vector3d list \<Rightarrow> Vector3d list \<Rightarrow> Vector3d list \<Rightarrow>
   error + (Matrix3d fp \<times> Matrix3x10d fp \<times> Vector3d fp \<times> Matrix10d fp \<times> Vector10d fp \<times> real fp)"
  where
  "UpnpSteps ray_origins ray_directions world_points =
     bind_result (ComputeHMatrixAndRayDirectionsOuterProducts ray_directions (Ptr []))
       (\<lambda>(h_matrix, outer_products).
     bind_result (ComputeHelperMatrices world_points ray_origins outer_products h_matrix
                    (Ptr ()) (Ptr ()))
       (\<lambda>(g_matrix, j_matrix).
     bind_result (ComputeCostMatrices world_points ray_origins outer_products g_matrix j_matrix
                    (Ptr ()) (Ptr ()))
       (\<lambda>(a_matrix, b_mat, gamma).
     Inr (h_matrix, g_matrix, j_matrix, a_matrix, b_mat, gamma))))"

text \<open>
  \<^verbatim>\<open>Upnp\<close> clears both output vectors, runs the three steps and returns. The result is the
  contents of \<^verbatim>\<open>*solution_rotations\<close> and \<^verbatim>\<open>*solution_translations\<close> at the return.
\<close>

definition Upnp ::
  "Vector3d list \<Rightarrow> Vector3d list \<Rightarrow> Vector3d list \<Rightarrow>
   Quaterniond list ptr \<Rightarrow> Vector3d list ptr \<Rightarrow> error + (Quaterniond list \<times> Vector3d list)" where
  "Upnp ray_origins ray_directions world_points solution_rotations solution_translations =
     (case solution_rotations of
        Null \<Rightarrow> Inl CheckFailed
      | Ptr _ \<Rightarrow>
          let solution_rotations' = []
          in (case solution_translations of
                Null \<Rightarrow> Inl CheckFailed
              | Ptr _ \<Rightarrow>
                  let solution_translations' = []
                  in bind_result (UpnpSteps ray_origins ray_directions world_points)
                       (\<lambda>locals. Inr (solution_rotations', solution_translations'))))"

section \<open>Notions of the specification\<close>

text \<open>
  The definitions of this section are not translations of code: they spell out the
  mathematical notions the specification uses, for comparison with the code.
\<close>

definition vec_scale :: "real \<Rightarrow> ('r \<Rightarrow> real) \<Rightarrow> 'r \<Rightarrow> real" where
  "vec_scale k v = (\<lambda>r. k * v r)"

text \<open>The sum of \<open>n\<close> vectors or matrices \<open>f 0, \<dots>, f (n - 1)\<close>.\<close>

definition vec_sum :: "nat \<Rightarrow> (nat \<Rightarrow> 'r \<Rightarrow> real) \<Rightarrow> 'r \<Rightarrow> real" where
  "vec_sum n f = (\<lambda>r. \<Sum>i<n. f i r)"

definition mat_sum :: "nat \<Rightarrow> (nat \<Rightarrow> 'r \<Rightarrow> 'c \<Rightarrow> real) \<Rightarrow> 'r \<Rightarrow> 'c \<Rightarrow> real" where
  "mat_sum n f = (\<lambda>r c. \<Sum>i<n. f i r c)"

text \<open>\<open>N\<cdot>I - \<Sum> d\<^sub>i d\<^sub>i\<^sup>T\<close>, the matrix the Direction Aggregator inverts.\<close>

definition h_inverse_matrix :: "Vector3d list \<Rightarrow> Matrix3d" where
  "h_inverse_matrix ray_directions =
     mat_sub (mat_scale (real (length ray_directions)) Identity)
       (mat_sum (length ray_directions) (\<lambda>i. outer (ray_directions ! i) (ray_directions ! i)))"

text \<open>\<open>V\<^sub>i = H (outer_product\<^sub>i - I)\<close>.\<close>

definition V_matrix :: "Matrix3d \<Rightarrow> Matrix3d \<Rightarrow> Matrix3d" where
  "V_matrix h outer_product = mat_mul h (mat_sub outer_product Identity)"

text \<open>\<open>Temp_A\<^sub>i = (outer_product\<^sub>i - I) (\<Phi>(worldPoint\<^sub>i) + G)\<close>.\<close>

definition Temp_A :: "Matrix3x10d \<Rightarrow> Matrix3d \<Rightarrow> Vector3d \<Rightarrow> Matrix3x10d" where
  "Temp_A g outer_product world_point =
     mat_mul (mat_sub outer_product Identity) (mat_add (LeftMultiply world_point) g)"

text \<open>\<open>Temp_B\<^sub>i = - (outer_product\<^sub>i - I) (origin\<^sub>i + J)\<close>.\<close>

definition Temp_B :: "Vector3d \<Rightarrow> Matrix3d \<Rightarrow> Vector3d \<Rightarrow> Vector3d" where
  "Temp_B j outer_product ray_origin =
     mat_vec (mat_neg (mat_sub outer_product Identity)) (vec_add ray_origin j)"

text \<open>\<open>x\<^sup>T A x\<close>.\<close>

definition quadratic_form :: "('n::finite \<Rightarrow> 'n \<Rightarrow> real) \<Rightarrow> ('n \<Rightarrow> real) \<Rightarrow> real" where
  "quadratic_form a x = (\<Sum>r\<in>UNIV. \<Sum>c\<in>UNIV. x r * a r c * x c)"

text \<open>
  The vector of the ten quadratic monomials of a quaternion \<open>(q0, q1, q2, q3)\<close>, in the order
  \<open>q0\<^sup>2, q1\<^sup>2, q2\<^sup>2, q3\<^sup>2, q0 q1, q0 q2, q0 q3, q1 q2, q1 q3, q2 q3\<close>.
\<close>

definition quaternion_monomials :: "Quaterniond \<Rightarrow> Vector10d" where
  "quaternion_monomials q =
     (case q of Quaterniond q0 q1 q2 q3 \<Rightarrow>
        Vector10d (q0 * q0) (q1 * q1) (q2 * q2) (q3 * q3)
                  (q0 * q1) (q0 * q2) (q0 * q3) (q1 * q2) (q1 * q3) (q2 * q3))"

definition unit_quaternion :: "Quaterniond \<Rightarrow> bool" where
  "unit_quaternion q =
     (case q of Quaterniond q0 q1 q2 q3 \<Rightarrow> q0 * q0 + q1 * q1 + q2 * q2 + q3 * q3 = 1)"

text \<open>
  The standard rotation matrix of a unit quaternion \<open>(w, x, y, z)\<close>, as
  \<^verbatim>\<open>Eigen::Quaterniond::toRotationMatrix\<close> computes it.
\<close>

definition quaternion_rotation_matrix :: "Quaterniond \<Rightarrow> Matrix3d" where
  "quaternion_rotation_matrix q =
     (case q of Quaterniond w x y z \<Rightarrow>
        rows3
          (Vector3d (1 - 2 * (y * y + z * z)) (2 * (x * y - w * z)) (2 * (x * z + w * y)))
          (Vector3d (2 * (x * y + w * z)) (1 - 2 * (x * x + z * z)) (2 * (y * z - w * x)))
          (Vector3d (2 * (x * z - w * y)) (2 * (y * z + w * x)) (1 - 2 * (x * x + y * y))))"

text \<open>
  A noiseless observation of a world point under the pose \<open>(q, t)\<close>: the ray direction is a
  unit vector and the point, moved by the pose, lies on the ray at a positive depth.
\<close>

definition projects_to ::
  "Quaterniond \<Rightarrow> Vector3d \<Rightarrow> Vector3d \<Rightarrow> real \<Rightarrow> Vector3d \<Rightarrow> Vector3d \<Rightarrow> bool" where
  "projects_to q t world_point depth ray_origin ray_direction =
     (squaredNorm ray_direction = 1 \<and> 0 < depth \<and>
      vec_add ray_origin (vec_scale depth ray_direction) =
        vec_add (mat_vec (quaternion_rotation_matrix q) world_point) t)"

text \<open>
  The values of the locals of \<^verbatim>\<open>Upnp\<close> in closed form, for input sequences of one length.
\<close>

definition upnp_quantities ::
  "Vector3d list \<Rightarrow> Vector3d list \<Rightarrow> Vector3d list \<Rightarrow>
   Matrix3d fp \<times> Matrix3x10d fp \<times> Vector3d fp \<times> Matrix10d fp \<times> Vector10d fp \<times> real fp" where
  "upnp_quantities ray_origins ray_directions world_points =
     (let n = length ray_directions;
          op = (\<lambda>i. outer (ray_directions ! i) (ray_directions ! i))
      in case inverse3 (h_inverse_matrix ray_directions) of
           Finite h \<Rightarrow>
             let g = mat_sum n (\<lambda>i. mat_mul (V_matrix h (op i)) (LeftMultiply (world_points ! i)));
                 j = vec_sum n (\<lambda>i. mat_vec (V_matrix h (op i)) (ray_origins ! i))
             in (Finite h, Finite g, Finite j,
                 Finite (mat_sum n (\<lambda>i. mat_mul (transpose_mat (Temp_A g (op i) (world_points ! i)))
                                            (Temp_A g (op i) (world_points ! i)))),
                 Finite (vec_sum n (\<lambda>i. mat_vec (transpose_mat (Temp_A g (op i) (world_points ! i)))
                                            (Temp_B j (op i) (ray_origins ! i)))),
                 Finite (\<Sum>i<n. squaredNorm (Temp_B j (op i) (ray_origins ! i))))
         | NonFinite \<Rightarrow>
             if n = 0
             then (NonFinite, Finite Zero_mat, Finite Zero_vec,
                   Finite Zero_mat, Finite Zero_vec, Finite 0)
             else (NonFinite, NonFinite, NonFinite, NonFinite, NonFinite, NonFinite))"

text \<open>
  The invariant of the accumulation loop of \<^verbatim>\<open>ComputeCostMatrices\<close>: the accumulated matrix
  is finite, symmetric and positive semi-definite.
\<close>

definition a_matrix_invariant :: "Matrix10d fp \<times> Vector10d fp \<times> real fp \<Rightarrow> bool" where
  "a_matrix_invariant s =
     (case fst s of NonFinite \<Rightarrow> False
      | Finite a \<Rightarrow> (\<forall>r c. a r c = a c r) \<and> (\<forall>x. 0 \<le> quadratic_form a x))"

section \<open>Concrete inputs\<close>

text \<open>
  A synthetic scene of six world points seen by a central camera (all ray origins at the
  centre) under the identity rotation and the zero translation; the ray directions are the
  normalised world points and \<open>scene_depths\<close> are their norms.
\<close>

definition scene_rotation :: Quaterniond where
  "scene_rotation = Quaterniond 1 0 0 0"

definition scene_translation :: Vector3d where
  "scene_translation = Vector3d 0 0 0"

definition scene_world_points :: "Vector3d list" where
  "scene_world_points =
     [Vector3d 1 2 2, Vector3d 4 2 4, Vector3d 2 2 1,
      Vector3d 2 3 6, Vector3d 6 12 4, Vector3d 6 2 3]"

definition scene_depths :: "real list" where
  "scene_depths = [3, 6, 3, 7, 14, 7]"

definition scene_ray_origins :: "Vector3d list" where
  "scene_ray_origins = replicate 6 (Vector3d 0 0 0)"

definition scene_ray_directions :: "Vector3d list" where
  "scene_ray_directions =
     [Vector3d (1/3) (2/3) (2/3), Vector3d (2/3) (1/3) (2/3), Vector3d (2/3) (2/3) (1/3),
      Vector3d (2/7) (3/7) (6/7), Vector3d (3/7) (6/7) (2/7), Vector3d (6/7) (2/7) (3/7)]"

text \<open>Two correspondences with orthogonal unit ray directions, and their outer products.\<close>

definition two_ray_origins :: "Vector3d list" where
  "two_ray_origins = [Vector3d 0 0 1, Vector3d 0 0 0]"

definition two_ray_directions :: "Vector3d list" where
  "two_ray_directions = [Vector3d 1 0 0, Vector3d 0 1 0]"

definition two_world_points :: "Vector3d list" where
  "two_world_points = [Vector3d 2 0 0, Vector3d 0 3 0]"

definition two_outer_products :: "Matrix3d list" where
  "two_outer_products =
     [outer (Vector3d 1 0 0) (Vector3d 1 0 0), outer (Vector3d 0 1 0) (Vector3d 0 1 0)]"

section \<open>Auxiliary facts\<close>

subsection \<open>Loops and control flow\<close>

declare for_loop.simps [simp del]

lemma for_loop_returns:
  assumes "\<And>i s. i < n \<Longrightarrow> \<exists>s'. body i s = Inr s'"
  shows "\<exists>s'. for_loop i n body s = Inr s'"
  using assms
proof (induction i n body s rule: for_loop.induct)
  case (1 i n body s)
  show ?case
  proof (cases "i < n")
    case True
    then obtain s' where s': "body i s = Inr s'" using "1.prems" by blast
    from "1.IH"[OF True s'] "1.prems" obtain s'' where "for_loop (Suc i) n body s' = Inr s''"
      by blast
    with True s' show ?thesis by (subst for_loop.simps) simp
  next
    case False
    then show ?thesis by (subst for_loop.simps) simp
  qed
qed

lemma for_loop_Suc:
  "i \<le> n \<Longrightarrow> for_loop i (Suc n) body s = bind_result (for_loop i n body s) (body n)"
proof (induction i n body s rule: for_loop.induct)
  case (1 i n body s)
  show ?case
  proof (cases "i < n")
    case True
    show ?thesis
    proof (cases "body i s")
      case (Inl e)
      with True show ?thesis
        by (simp add: for_loop.simps[of i "Suc n" body s] for_loop.simps[of i n body s]
              bind_result_def)
    next
      case (Inr s')
      from "1.IH"[OF True Inr] True
      have "for_loop (Suc i) (Suc n) body s' = bind_result (for_loop (Suc i) n body s') (body n)"
        by simp
      with True Inr show ?thesis
        by (simp add: for_loop.simps[of i "Suc n" body s] for_loop.simps[of i n body s])
    qed
  next
    case False
    with "1.prems" have "i = n" by simp
    then show ?thesis
      by (simp add: for_loop.simps[of n "Suc n" body s] for_loop.simps[of n n body s]
            for_loop.simps[of "Suc n" "Suc n" body] bind_result_def split: sum.splits)
  qed
qed

lemma for_loop_0: "for_loop 0 0 body s = Inr s"
  by (subst for_loop.simps) simp

lemma vector_at_Inr: "i < length xs \<Longrightarrow> vector_at xs i = Inr (xs ! i)"
  by (simp add: vector_at_def)

lemma helper_body_returns:
  "i < length world_points \<Longrightarrow> i < length ray_origins \<Longrightarrow> i < length outer_products \<Longrightarrow>
   \<exists>s'. helper_body world_points ray_origins outer_products h_matrix i s = Inr s'"
  by (cases s) (simp add: helper_body_def vector_at_Inr bind_result_def Let_def)

lemma cost_body_returns:
  "i < length world_points \<Longrightarrow> i < length ray_origins \<Longrightarrow> i < length outer_products \<Longrightarrow>
   \<exists>s'. cost_body world_points ray_origins outer_products g_matrix j_matrix i s = Inr s'"
  by (cases s) (simp add: cost_body_def vector_at_Inr bind_result_def Let_def)

lemma fold_h_loop_body_length:
  "length (snd (fold h_loop_body rays (h, ops))) = length ops + length rays"
  by (induction rays arbitrary: h ops) (simp_all add: h_loop_body_def Let_def)

lemma ComputeH_returns:
  "\<exists>h ops'. ComputeHMatrixAndRayDirectionsOuterProducts ray_directions (Ptr ops) = Inr (h, ops')
     \<and> length ops' = length ops + length ray_directions"
proof -
  obtain h ops' where f: "fold h_loop_body ray_directions (Zero_mat, ops) = (h, ops')"
    by (cases "fold h_loop_body ray_directions (Zero_mat, ops)")
  have "length ops' = length ops + length ray_directions"
    using fold_h_loop_body_length[of ray_directions Zero_mat ops] f by simp
  then show ?thesis
    by (simp add: ComputeHMatrixAndRayDirectionsOuterProducts_def f Let_def)
qed

lemma UpnpSteps_returns:
  assumes "length ray_origins = length ray_directions"
    and "length world_points = length ray_directions"
  shows "\<exists>locals. UpnpSteps ray_origins ray_directions world_points = Inr locals"
proof -
  obtain h ops where h: "ComputeHMatrixAndRayDirectionsOuterProducts ray_directions (Ptr []) = Inr (h, ops)"
    and len: "length ops = length ray_directions"
    using ComputeH_returns[of ray_directions "[]"] by auto
  have "\<exists>s'. for_loop 0 (length ray_origins) (helper_body world_points ray_origins ops h)
          (Finite Zero_mat, Finite Zero_vec) = Inr s'"
    using helper_body_returns[of _ world_points ray_origins ops h] assms len
    by (intro for_loop_returns) simp
  then obtain g j where gj: "ComputeHelperMatrices world_points ray_origins ops h (Ptr ()) (Ptr ()) = Inr (g, j)"
    by (auto simp add: ComputeHelperMatrices_def assms len)
  have "\<exists>s'. for_loop 0 (length world_points) (cost_body world_points ray_origins ops g j)
          (Finite Zero_mat, Finite Zero_vec, Finite 0) = Inr s'"
    using cost_body_returns[of _ world_points ray_origins ops g j] assms len
    by (intro for_loop_returns) simp
  then obtain a b gamma where "ComputeCostMatrices world_points ray_origins ops g j (Ptr ()) (Ptr ()) = Inr (a, b, gamma)"
    by (auto simp add: ComputeCostMatrices_def)
  with h gj show ?thesis
    by (simp add: UpnpSteps_def bind_result_def)
qed

lemma Upnp_returns_cleared:
  "Upnp ray_origins ray_directions world_points solution_rotations solution_translations = Inr out
   \<Longrightarrow> out = ([], [])"
  by (auto simp add: Upnp_def bind_result_def Let_def split: ptr.splits sum.splits)

lemma Upnp_equal_lengths:
  assumes "length ray_origins = length ray_directions"
    and "length world_points = length ray_directions"
  shows "Upnp ray_origins ray_directions world_points (Ptr rotations) (Ptr translations) = Inr ([], [])"
  using UpnpSteps_returns[OF assms]
  by (auto simp add: Upnp_def bind_result_def Let_def)

subsection \<open>Index types and the 3x3 inverse\<close>

lemma exhaust_3: "(x::3) = 0 \<or> x = 1 \<or> x = 2"
proof (induct x)
  case (of_int z)
  then have "0 \<le> z" and "z < 3" by simp_all
  then have "z = 0 \<or> z = 1 \<or> z = 2" by arith
  then show ?case by (elim disjE) simp_all
qed

lemma UNIV_3: "(UNIV::3 set) = {0, 1, 2}"
  using exhaust_3 by blast

lemma sum_3: "sum f (UNIV::3 set) = f 0 + f 1 + (f 2 :: real)"
  unfolding UNIV_3 by simp

lemma exhaust_10:
  "(x::10) = 0 \<or> x = 1 \<or> x = 2 \<or> x = 3 \<or> x = 4 \<or> x = 5 \<or> x = 6 \<or> x = 7 \<or> x = 8 \<or> x = 9"
proof (induct x)
  case (of_int z)
  then have "0 \<le> z" and "z < 10" by simp_all
  then have "z = 0 \<or> z = 1 \<or> z = 2 \<or> z = 3 \<or> z = 4 \<or> z = 5 \<or> z = 6 \<or> z = 7 \<or> z = 8 \<or> z = 9"
    by arith
  then show ?case by (elim disjE) simp_all
qed

lemma UNIV_10: "(UNIV::10 set) = {0, 1, 2, 3, 4, 5, 6, 7, 8, 9}"
  using exhaust_10 by blast

lemma sum_10:
  "sum f (UNIV::10 set) = f 0 + f 1 + f 2 + f 3 + f 4 + f 5 + f 6 + f 7 + f 8 + (f 9 :: real)"
  unfolding UNIV_10 by simp

lemma index3_wrap: "(3::3) = 0" "(4::3) = 1"
  by simp_all

lemma cofactor_column_expansion:
  "(\<Sum>k\<in>UNIV. cofactor_3x3 m k r * m k c) = (if r = c then determinant3 m else 0)"
  using exhaust_3[of r] exhaust_3[of c]
  by (elim disjE) (simp_all add: sum_3 cofactor_3x3_def determinant3_def index3_wrap algebra_simps)

lemma cofactor_row_expansion:
  "(\<Sum>k\<in>UNIV. m r k * cofactor_3x3 m c k) = (if r = c then determinant3 m else 0)"
  using exhaust_3[of r] exhaust_3[of c]
  by (elim disjE) (simp_all add: sum_3 cofactor_3x3_def determinant3_def index3_wrap algebra_simps)

lemma inverse3_left:
  assumes "determinant3 m \<noteq> 0"
  shows "\<exists>h. inverse3 m = Finite h \<and> mat_mul h m = Identity \<and> mat_mul m h = Identity"
proof -
  define h where "h = (\<lambda>r c. cofactor_3x3 m c r * (1 / determinant3 m))"
  have inv: "inverse3 m = Finite h"
    using assms by (simp add: inverse3_def Let_def h_def)
  have l: "mat_mul h m r c = Identity r c" for r c
  proof -
    have "mat_mul h m r c = (1 / determinant3 m) * (\<Sum>k\<in>UNIV. cofactor_3x3 m k r * m k c)"
      by (simp add: mat_mul_def h_def sum_distrib_left mult_ac)
    then show ?thesis
      using assms by (simp add: cofactor_column_expansion Identity_def)
  qed
  have r: "mat_mul m h r c = Identity r c" for r c
  proof -
    have "mat_mul m h r c = (1 / determinant3 m) * (\<Sum>k\<in>UNIV. m r k * cofactor_3x3 m c k)"
      by (simp add: mat_mul_def h_def sum_distrib_left mult_ac)
    then show ?thesis
      using assms by (simp add: cofactor_row_expansion Identity_def)
  qed
  from inv l r show ?thesis by (intro exI[of _ h]) (simp add: fun_eq_iff)
qed

subsection \<open>The left-multiplication table\<close>

lemma LeftMultiply_rotation:
  assumes "unit_quaternion q"
  shows "mat_vec (LeftMultiply p) (quaternion_monomials q) = mat_vec (quaternion_rotation_matrix q) p"
proof (rule ext)
  fix r :: 3
  obtain q0 q1 q2 q3 where q: "q = Quaterniond q0 q1 q2 q3" by (cases q)
  from assms have u: "q0 * q0 = 1 - q1 * q1 - q2 * q2 - q3 * q3"
    by (simp add: unit_quaternion_def q)
  show "mat_vec (LeftMultiply p) (quaternion_monomials q) r = mat_vec (quaternion_rotation_matrix q) p r"
    using exhaust_3[of r]
    by (elim disjE)
       (simp_all add: mat_vec_def sum_10 sum_3 LeftMultiply_def quaternion_monomials_def
          quaternion_rotation_matrix_def rows3_def Vector10d_def Vector3d_def Let_def q u
          algebra_simps)
qed

lemma LeftMultiply_linear:
  "LeftMultiply (vec_add (vec_scale a p) (vec_scale b p')) =
   mat_add (mat_scale a (LeftMultiply p)) (mat_scale b (LeftMultiply p'))"
proof (intro ext)
  fix r :: 3 and c :: 10
  show "LeftMultiply (vec_add (vec_scale a p) (vec_scale b p')) r c =
        mat_add (mat_scale a (LeftMultiply p)) (mat_scale b (LeftMultiply p')) r c"
    by (simp add: LeftMultiply_def rows3_def Vector10d_def Let_def vec_add_def vec_scale_def
          mat_add_def mat_scale_def algebra_simps)
qed

lemma LeftMultiply_entries:
  "LeftMultiply p r c \<in> {0, p 0, - p 0, 2 * p 0, - 2 * p 0, p 1, - p 1, 2 * p 1, - 2 * p 1,
                          p 2, - p 2, 2 * p 2, - 2 * p 2}"
  by (simp add: LeftMultiply_def rows3_def Vector10d_def Let_def)

subsection \<open>Closed forms of the three stages\<close>

lemma vec_sum_0: "vec_sum 0 f = Zero_vec"
  by (simp add: vec_sum_def Zero_vec_def)

lemma mat_sum_0: "mat_sum 0 f = Zero_mat"
  by (simp add: mat_sum_def Zero_mat_def)

lemma vec_sum_Suc: "vec_sum (Suc n) f = vec_add (vec_sum n f) (f n)"
  by (simp add: vec_sum_def vec_add_def)

lemma mat_sum_Suc: "mat_sum (Suc n) f = mat_add (mat_sum n f) (f n)"
  by (simp add: mat_sum_def mat_add_def)

lemma fold_h_loop_body:
  "fold h_loop_body rays (h, ops) =
     (\<lambda>r c. h r c - (\<Sum>d\<leftarrow>rays. outer d d r c), ops @ map (\<lambda>d. outer d d) rays)"
proof (induction rays arbitrary: h ops)
  case Nil
  show ?case by simp
next
  case (Cons ray rays)
  have "fold h_loop_body (ray # rays) (h, ops) =
        fold h_loop_body rays (mat_sub h (outer ray ray), ops @ [outer ray ray])"
    by (simp add: h_loop_body_def Let_def)
  then show ?case
    by (simp add: Cons.IH mat_sub_def fun_eq_iff algebra_simps)
qed

lemma sum_list_nth_less: "(\<Sum>x\<leftarrow>xs. f x) = (\<Sum>i<length xs. (f (xs ! i) :: real))"
proof -
  have "(\<Sum>x\<leftarrow>xs. f x) = (\<Sum>i = 0..<length (map f xs). map f xs ! i)"
    by (rule sum_list_sum_nth)
  also have "\<dots> = (\<Sum>i<length xs. f (xs ! i))"
    by (simp add: atLeast0LessThan)
  finally show ?thesis .
qed

lemma ComputeH_closed_form:
  "ComputeHMatrixAndRayDirectionsOuterProducts ray_directions (Ptr ops) =
     Inr (inverse3 (h_inverse_matrix ray_directions),
          ops @ map (\<lambda>d. outer d d) ray_directions)"
proof -
  have "mat_add (\<lambda>r c. Zero_mat r c - (\<Sum>d\<leftarrow>ray_directions. outer d d r c))
          (mat_scale (real (length ray_directions)) Identity) = h_inverse_matrix ray_directions"
    by (simp add: fun_eq_iff mat_add_def mat_sub_def mat_scale_def mat_sum_def Zero_mat_def
          h_inverse_matrix_def sum_list_nth_less[of "\<lambda>d. outer d d _ _"])
  then show ?thesis
    by (simp add: ComputeHMatrixAndRayDirectionsOuterProducts_def fold_h_loop_body Let_def)
qed

lemma helper_loop_finite:
  assumes "k \<le> length world_points" "k \<le> length ray_origins" "k \<le> length outer_products"
  shows "for_loop 0 k (helper_body world_points ray_origins outer_products (Finite h))
           (Finite Zero_mat, Finite Zero_vec) =
         Inr (Finite (mat_sum k (\<lambda>i. mat_mul (V_matrix h (outer_products ! i))
                                      (LeftMultiply (world_points ! i)))),
              Finite (vec_sum k (\<lambda>i. mat_vec (V_matrix h (outer_products ! i))
                                      (ray_origins ! i))))"
  using assms
proof (induction k)
  case 0
  show ?case by (simp add: for_loop_0 mat_sum_0 vec_sum_0)
next
  case (Suc k)
  then show ?case
    by (simp add: for_loop_Suc bind_result_def helper_body_def vector_at_Inr Let_def
          mat_sum_Suc vec_sum_Suc V_matrix_def)
qed

lemma helper_loop_nonfinite:
  assumes "k \<le> length world_points" "k \<le> length ray_origins" "k \<le> length outer_products"
  shows "for_loop 0 k (helper_body world_points ray_origins outer_products NonFinite)
           (Finite Zero_mat, Finite Zero_vec) =
         Inr (if k = 0 then (Finite Zero_mat, Finite Zero_vec) else (NonFinite, NonFinite))"
  using assms
proof (induction k)
  case 0
  show ?case by (simp add: for_loop_0)
next
  case (Suc k)
  then show ?case
    by (cases "k = 0")
       (simp_all add: for_loop_Suc bind_result_def helper_body_def vector_at_Inr Let_def
          Suc_le_eq)
qed

lemma cost_loop_finite:
  assumes "k \<le> length world_points" "k \<le> length ray_origins" "k \<le> length outer_products"
  shows "for_loop 0 k (cost_body world_points ray_origins outer_products (Finite g) (Finite j))
           (Finite Zero_mat, Finite Zero_vec, Finite 0) =
         Inr (Finite (mat_sum k (\<lambda>i. mat_mul
                        (transpose_mat (Temp_A g (outer_products ! i) (world_points ! i)))
                        (Temp_A g (outer_products ! i) (world_points ! i)))),
              Finite (vec_sum k (\<lambda>i. mat_vec
                        (transpose_mat (Temp_A g (outer_products ! i) (world_points ! i)))
                        (Temp_B j (outer_products ! i) (ray_origins ! i)))),
              Finite (\<Sum>i<k. squaredNorm (Temp_B j (outer_products ! i) (ray_origins ! i))))"
  using assms
proof (induction k)
  case 0
  show ?case by (simp add: for_loop_0 mat_sum_0 vec_sum_0)
next
  case (Suc k)
  then show ?case
    by (simp add: for_loop_Suc bind_result_def cost_body_def vector_at_Inr Let_def
          mat_sum_Suc vec_sum_Suc Temp_A_def Temp_B_def)
qed

lemma cost_loop_nonfinite:
  assumes "k \<le> length world_points" "k \<le> length ray_origins" "k \<le> length outer_products"
  shows "for_loop 0 k (cost_body world_points ray_origins outer_products NonFinite NonFinite)
           (Finite Zero_mat, Finite Zero_vec, Finite 0) =
         Inr (if k = 0 then (Finite Zero_mat, Finite Zero_vec, Finite 0)
              else (NonFinite, NonFinite, NonFinite))"
  using assms
proof (induction k)
  case 0
  show ?case by (simp add: for_loop_0)
next
  case (Suc k)
  then show ?case
    by (cases "k = 0")
       (simp_all add: for_loop_Suc bind_result_def cost_body_def vector_at_Inr Let_def
          Suc_le_eq)
qed

lemma cost_loop_g_nonfinite:
  assumes "k \<le> length world_points" "k \<le> length ray_origins" "k \<le> length outer_products"
  shows "for_loop 0 k (cost_body world_points ray_origins outer_products NonFinite (Finite j))
           (Finite Zero_mat, Finite Zero_vec, Finite 0) =
         Inr (if k = 0 then Finite Zero_mat else NonFinite,
              if k = 0 then Finite Zero_vec else NonFinite,
              Finite (\<Sum>i<k. squaredNorm (Temp_B j (outer_products ! i) (ray_origins ! i))))"
  using assms
proof (induction k)
  case 0
  show ?case by (simp add: for_loop_0)
next
  case (Suc k)
  then show ?case
    by (cases "k = 0")
       (simp_all add: for_loop_Suc bind_result_def cost_body_def vector_at_Inr Let_def
          Suc_le_eq Temp_B_def)
qed

lemma cost_loop_j_nonfinite:
  assumes "k \<le> length world_points" "k \<le> length ray_origins" "k \<le> length outer_products"
  shows "for_loop 0 k (cost_body world_points ray_origins outer_products (Finite g) NonFinite)
           (Finite Zero_mat, Finite Zero_vec, Finite 0) =
         Inr (Finite (mat_sum k (\<lambda>i. mat_mul
                        (transpose_mat (Temp_A g (outer_products ! i) (world_points ! i)))
                        (Temp_A g (outer_products ! i) (world_points ! i)))),
              if k = 0 then Finite Zero_vec else NonFinite,
              if k = 0 then Finite 0 else NonFinite)"
  using assms
proof (induction k)
  case 0
  show ?case by (simp add: for_loop_0 mat_sum_0)
next
  case (Suc k)
  then show ?case
    by (cases "k = 0")
       (simp_all add: for_loop_Suc bind_result_def cost_body_def vector_at_Inr Let_def
          Suc_le_eq Temp_A_def mat_sum_Suc)
qed

subsection \<open>Quadratic forms of Gram matrices\<close>

lemma quadratic_form_Zero: "quadratic_form Zero_mat x = 0"
  by (simp add: quadratic_form_def Zero_mat_def)

lemma quadratic_form_add:
  "quadratic_form (mat_add a b) x = quadratic_form a x + quadratic_form b x"
  by (simp add: quadratic_form_def mat_add_def algebra_simps sum.distrib)

lemma quadratic_form_gram:
  fixes t :: "'k::finite \<Rightarrow> 'n::finite \<Rightarrow> real"
  shows "quadratic_form (mat_mul (transpose_mat t) t) x = (\<Sum>k\<in>UNIV. (mat_vec t x k)\<^sup>2)"
proof -
  have "quadratic_form (mat_mul (transpose_mat t) t) x =
        (\<Sum>r\<in>UNIV. \<Sum>c\<in>UNIV. \<Sum>k\<in>UNIV. (t k r * x r) * (t k c * x c))"
    by (simp add: quadratic_form_def mat_mul_def transpose_mat_def sum_distrib_left
          sum_distrib_right mult_ac)
  also have "\<dots> = (\<Sum>r\<in>UNIV. \<Sum>k\<in>UNIV. \<Sum>c\<in>UNIV. (t k r * x r) * (t k c * x c))"
    by (subst sum.swap[of _ UNIV UNIV]) (rule refl)
  also have "\<dots> = (\<Sum>k\<in>UNIV. \<Sum>r\<in>UNIV. \<Sum>c\<in>UNIV. (t k r * x r) * (t k c * x c))"
    by (rule sum.swap)
  also have "\<dots> = (\<Sum>k\<in>UNIV. (mat_vec t x k)\<^sup>2)"
    by (simp add: mat_vec_def power2_eq_square sum_product)
  finally show ?thesis .
qed

lemma gram_symmetric: "mat_mul (transpose_mat t) t r c = mat_mul (transpose_mat t) t c r"
  by (simp add: mat_mul_def transpose_mat_def mult.commute)

lemma quadratic_form_gram_nonneg:
  fixes t :: "'k::finite \<Rightarrow> 'n::finite \<Rightarrow> real"
  shows "0 \<le> quadratic_form (mat_mul (transpose_mat t) t) x"
  unfolding quadratic_form_gram by (rule sum_nonneg) simp

lemma a_matrix_invariant_init: "a_matrix_invariant (Finite Zero_mat, b, gamma)"
  by (simp add: a_matrix_invariant_def quadratic_form_Zero) (simp add: Zero_mat_def)

lemma cost_body_invariant:
  assumes "a_matrix_invariant s"
    and "cost_body world_points ray_origins outer_products (Finite g) j_matrix i s = Inr s'"
  shows "a_matrix_invariant s'"
proof -
  obtain a_matrix b_vector gamma where s: "s = (a_matrix, b_vector, gamma)"
    by (cases s)
  from assms(1) obtain a where a: "a_matrix = Finite a"
    and sym: "\<And>r c. a r c = a c r" and psd: "\<And>x. 0 \<le> quadratic_form a x"
    by (cases a_matrix) (simp_all add: a_matrix_invariant_def s)
  from assms(2) obtain world_point outer_product where
    fs: "fst s' = fp_lift2 mat_add a_matrix
           (fp_map (\<lambda>ta. mat_mul (transpose_mat ta) ta)
              (fp_lift2 mat_mul (Finite (mat_sub outer_product Identity))
                 (fp_lift2 mat_add (Finite (LeftMultiply world_point)) (Finite g))))"
    by (auto simp add: cost_body_def s bind_result_def Let_def split: sum.splits)
  define t where
    "t = mat_mul (mat_sub outer_product Identity) (mat_add (LeftMultiply world_point) g)"
  from fs have eq: "fst s' = Finite (mat_add a (mat_mul (transpose_mat t) t))"
    by (simp add: a t_def)
  have "mat_add a (mat_mul (transpose_mat t) t) r c = mat_add a (mat_mul (transpose_mat t) t) c r"
    for r c
    using sym[of r c] gram_symmetric[of t r c] by (simp add: mat_add_def)
  moreover have "0 \<le> quadratic_form (mat_add a (mat_mul (transpose_mat t) t)) x" for x
    using psd[of x] quadratic_form_gram_nonneg[of t x] by (simp add: quadratic_form_add)
  ultimately show ?thesis
    by (simp add: a_matrix_invariant_def eq)
qed

lemma for_loop_invariant:
  "\<forall>i s s'. Inv s \<longrightarrow> body i s = Inr s' \<longrightarrow> Inv s' \<Longrightarrow>
   Inv s \<Longrightarrow> for_loop i n body s = Inr s' \<Longrightarrow> Inv s'"
proof (induction i n body s rule: for_loop.induct)
  case (1 i n body s)
  show ?case
  proof (cases "i < n")
    case True
    with "1.prems"(3) obtain s1 where b: "body i s = Inr s1"
      and l: "for_loop (Suc i) n body s1 = Inr s'"
      by (auto simp add: for_loop.simps[of i n body s] split: sum.splits)
    have "Inv s1" using "1.prems"(1) "1.prems"(2) b by blast
    then show ?thesis using "1.IH"[OF True b "1.prems"(1) _ l] by blast
  next
    case False
    with "1.prems"(3) have "s' = s" by (simp add: for_loop.simps[of i n body s])
    with "1.prems"(2) show ?thesis by simp
  qed
qed

lemma cost_loop_invariant:
  "for_loop i n (cost_body world_points ray_origins outer_products (Finite g) j_matrix) s = Inr s'
   \<Longrightarrow> a_matrix_invariant s \<Longrightarrow> a_matrix_invariant s'"
  using for_loop_invariant[of a_matrix_invariant
      "cost_body world_points ray_origins outer_products (Finite g) j_matrix" s i n s']
    cost_body_invariant
  by blast

lemma squaredNorm_nonneg: "0 \<le> squaredNorm v"
  unfolding squaredNorm_def by (rule sum_nonneg) simp

subsection \<open>The steps of \<^verbatim>\<open>Upnp\<close> in closed form\<close>

lemma mat_sum_cong: "(\<And>i. i < n \<Longrightarrow> f i = g i) \<Longrightarrow> mat_sum n f = mat_sum n g"
  by (simp add: mat_sum_def)

lemma vec_sum_cong: "(\<And>i. i < n \<Longrightarrow> f i = g i) \<Longrightarrow> vec_sum n f = vec_sum n g"
  by (simp add: vec_sum_def)

lemma UpnpSteps_closed_form:
  assumes ro: "length ray_origins = length ray_directions"
    and wp: "length world_points = length ray_directions"
  shows "UpnpSteps ray_origins ray_directions world_points =
         Inr (upnp_quantities ray_origins ray_directions world_points)"
proof -
  define ops where "ops = map (\<lambda>d. outer d d) ray_directions"
  have len: "length ops = length ray_directions" by (simp add: ops_def)
  have nth: "ops ! i = outer (ray_directions ! i) (ray_directions ! i)"
    if "i < length ray_directions" for i
    using that by (simp add: ops_def)
  have st1: "ComputeHMatrixAndRayDirectionsOuterProducts ray_directions (Ptr []) =
             Inr (inverse3 (h_inverse_matrix ray_directions), ops)"
    by (simp add: ComputeH_closed_form ops_def)
  show ?thesis
  proof (cases "inverse3 (h_inverse_matrix ray_directions)")
    case (Finite h)
    define g where "g = mat_sum (length ray_directions)
      (\<lambda>i. mat_mul (V_matrix h (ops ! i)) (LeftMultiply (world_points ! i)))"
    define j where "j = vec_sum (length ray_directions)
      (\<lambda>i. mat_vec (V_matrix h (ops ! i)) (ray_origins ! i))"
    have st2: "ComputeHelperMatrices world_points ray_origins ops (Finite h) (Ptr ()) (Ptr ()) =
               Inr (Finite g, Finite j)"
      using helper_loop_finite[of "length ray_directions" world_points ray_origins ops h]
      by (simp add: ComputeHelperMatrices_def ro wp len g_def j_def)
    have st3: "ComputeCostMatrices world_points ray_origins ops (Finite g) (Finite j) (Ptr ()) (Ptr ()) =
               Inr (Finite (mat_sum (length ray_directions) (\<lambda>i. mat_mul
                        (transpose_mat (Temp_A g (ops ! i) (world_points ! i)))
                        (Temp_A g (ops ! i) (world_points ! i)))),
                    Finite (vec_sum (length ray_directions) (\<lambda>i. mat_vec
                        (transpose_mat (Temp_A g (ops ! i) (world_points ! i)))
                        (Temp_B j (ops ! i) (ray_origins ! i)))),
                    Finite (\<Sum>i<length ray_directions.
                        squaredNorm (Temp_B j (ops ! i) (ray_origins ! i))))"
      using cost_loop_finite[of "length ray_directions" world_points ray_origins ops g j]
      by (simp add: ComputeCostMatrices_def ro wp len)
    have g': "g = mat_sum (length ray_directions)
      (\<lambda>i. mat_mul (V_matrix h (outer (ray_directions ! i) (ray_directions ! i)))
              (LeftMultiply (world_points ! i)))"
      unfolding g_def by (rule mat_sum_cong) (simp add: nth)
    have j': "j = vec_sum (length ray_directions)
      (\<lambda>i. mat_vec (V_matrix h (outer (ray_directions ! i) (ray_directions ! i)))
              (ray_origins ! i))"
      unfolding j_def by (rule vec_sum_cong) (simp add: nth)
    have a': "mat_sum (length ray_directions) (\<lambda>i. mat_mul
                        (transpose_mat (Temp_A g (ops ! i) (world_points ! i)))
                        (Temp_A g (ops ! i) (world_points ! i))) =
              mat_sum (length ray_directions) (\<lambda>i. mat_mul
                        (transpose_mat (Temp_A g (outer (ray_directions ! i) (ray_directions ! i)) (world_points ! i)))
                        (Temp_A g (outer (ray_directions ! i) (ray_directions ! i)) (world_points ! i)))"
      by (rule mat_sum_cong) (simp add: nth)
    have b': "vec_sum (length ray_directions) (\<lambda>i. mat_vec
                        (transpose_mat (Temp_A g (ops ! i) (world_points ! i)))
                        (Temp_B j (ops ! i) (ray_origins ! i))) =
              vec_sum (length ray_directions) (\<lambda>i. mat_vec
                        (transpose_mat (Temp_A g (outer (ray_directions ! i) (ray_directions ! i)) (world_points ! i)))
                        (Temp_B j (outer (ray_directions ! i) (ray_directions ! i)) (ray_origins ! i)))"
      by (rule vec_sum_cong) (simp add: nth)
    have c': "(\<Sum>i<length ray_directions. squaredNorm (Temp_B j (ops ! i) (ray_origins ! i))) =
              (\<Sum>i<length ray_directions. squaredNorm
                 (Temp_B j (outer (ray_directions ! i) (ray_directions ! i)) (ray_origins ! i)))"
      by (rule sum.cong) (simp_all add: nth)
    show ?thesis
      unfolding UpnpSteps_def st1 bind_result_def
      by (simp add: Finite st2 st3 upnp_quantities_def Let_def a' b' c')
         (simp add: g' j')
  next
    case NonFinite
    have st2: "ComputeHelperMatrices world_points ray_origins ops NonFinite (Ptr ()) (Ptr ()) =
               Inr (if length ray_directions = 0 then (Finite Zero_mat, Finite Zero_vec)
                    else (NonFinite, NonFinite))"
      using helper_loop_nonfinite[of "length ray_directions" world_points ray_origins ops]
      by (simp add: ComputeHelperMatrices_def ro wp len)
    have st3: "ComputeCostMatrices world_points ray_origins ops NonFinite NonFinite (Ptr ()) (Ptr ()) =
               Inr (if length ray_directions = 0 then (Finite Zero_mat, Finite Zero_vec, Finite 0)
                    else (NonFinite, NonFinite, NonFinite))"
      using cost_loop_nonfinite[of "length ray_directions" world_points ray_origins ops]
      by (simp add: ComputeCostMatrices_def ro wp len)
    have st3': "length ray_directions = 0 \<Longrightarrow>
               ComputeCostMatrices world_points ray_origins ops g j (Ptr ()) (Ptr ()) =
               Inr (Finite Zero_mat, Finite Zero_vec, Finite 0)" for g j
      using wp by (simp add: ComputeCostMatrices_def for_loop_0)
    show ?thesis
    proof (cases "length ray_directions = 0")
      case True
      then have rd: "ray_directions = []" by simp
      have nf: "inverse3 (h_inverse_matrix []) = NonFinite"
        using NonFinite by (simp add: rd)
      have "UpnpSteps ray_origins ray_directions world_points =
            Inr (NonFinite, Finite Zero_mat, Finite Zero_vec, Finite Zero_mat, Finite Zero_vec, Finite 0)"
        unfolding UpnpSteps_def st1 bind_result_def NonFinite
        using True by (simp add: st2 st3')
      then show ?thesis
        by (simp add: upnp_quantities_def Let_def rd nf)
    next
      case False
      have "UpnpSteps ray_origins ray_directions world_points =
            Inr (NonFinite, NonFinite, NonFinite, NonFinite, NonFinite, NonFinite)"
        unfolding UpnpSteps_def st1 bind_result_def NonFinite
        using False by (simp add: st2 st3)
      then show ?thesis
        using False by (simp add: upnp_quantities_def Let_def NonFinite)
    qed
  qed
qed

subsection \<open>Reordering the correspondences\<close>

lemma sum_nth_zip3:
  assumes "length ro = length rd" and "length wp = length rd"
  shows "(\<Sum>i<length rd. f (ro ! i) (rd ! i) (wp ! i)) =
         (\<Sum>(o', d, p)\<leftarrow>zip ro (zip rd wp). (f o' d p :: real))"
proof -
  have "(\<Sum>(o', d, p)\<leftarrow>zip ro (zip rd wp). f o' d p) =
        (\<Sum>i<length (zip ro (zip rd wp)). (case zip ro (zip rd wp) ! i of (o', d, p) \<Rightarrow> f o' d p))"
    by (rule sum_list_nth_less)
  also have "\<dots> = (\<Sum>i<length rd. f (ro ! i) (rd ! i) (wp ! i))"
    using assms by (intro sum.cong) simp_all
  finally show ?thesis by simp
qed

lemma sum_list_mset_cong:
  "mset xs = mset ys \<Longrightarrow> (\<Sum>x\<leftarrow>xs. f x) = (\<Sum>x\<leftarrow>ys. (f x :: real))"
proof -
  assume "mset xs = mset ys"
  then have "mset (map f xs) = mset (map f ys)" by (metis mset_map)
  then have "sum_mset (mset (map f xs)) = sum_mset (mset (map f ys))" by simp
  then show ?thesis by (simp only: sum_mset_sum_list)
qed

lemma sum_nth_zip3_permuted:
  assumes "length ro = length rd" and "length wp = length rd"
    and "length ro' = length rd'" and "length wp' = length rd'"
    and "mset (zip ro (zip rd wp)) = mset (zip ro' (zip rd' wp'))"
  shows "(\<Sum>i<length rd. f (ro ! i) (rd ! i) (wp ! i)) =
         (\<Sum>i<length rd'. (f (ro' ! i) (rd' ! i) (wp' ! i) :: real))"
  by (simp only: sum_nth_zip3[OF assms(1,2)] sum_nth_zip3[OF assms(3,4)]
        sum_list_mset_cong[OF assms(5)])

lemma upnp_quantities_permuted:
  assumes l: "length ro = length rd" "length wp = length rd"
    and l': "length ro' = length rd'" "length wp' = length rd'"
    and m: "mset (zip ro (zip rd wp)) = mset (zip ro' (zip rd' wp'))"
  shows "upnp_quantities ro rd wp = upnp_quantities ro' rd' wp'"
proof -
  note P = sum_nth_zip3_permuted[OF l l' m]
  have "length (zip ro (zip rd wp)) = length (zip ro' (zip rd' wp'))"
    using m by (metis size_mset)
  then have len: "length rd = length rd'"
    using l l' by simp
  have PM: "mat_sum (length rd) (\<lambda>i. F (ro ! i) (rd ! i) (wp ! i)) =
            mat_sum (length rd') (\<lambda>i. F (ro' ! i) (rd' ! i) (wp' ! i))" for F :: "Vector3d \<Rightarrow> Vector3d \<Rightarrow> Vector3d \<Rightarrow> 'r \<Rightarrow> 'c \<Rightarrow> real"
  proof (intro ext)
    fix r c
    show "mat_sum (length rd) (\<lambda>i. F (ro ! i) (rd ! i) (wp ! i)) r c =
          mat_sum (length rd') (\<lambda>i. F (ro' ! i) (rd' ! i) (wp' ! i)) r c"
      using P[of "\<lambda>o' d p. F o' d p r c"] by (simp add: mat_sum_def)
  qed
  have PV: "vec_sum (length rd) (\<lambda>i. F (ro ! i) (rd ! i) (wp ! i)) =
            vec_sum (length rd') (\<lambda>i. F (ro' ! i) (rd' ! i) (wp' ! i))" for F :: "Vector3d \<Rightarrow> Vector3d \<Rightarrow> Vector3d \<Rightarrow> 'r \<Rightarrow> real"
  proof (intro ext)
    fix r
    show "vec_sum (length rd) (\<lambda>i. F (ro ! i) (rd ! i) (wp ! i)) r =
          vec_sum (length rd') (\<lambda>i. F (ro' ! i) (rd' ! i) (wp' ! i)) r"
      using P[of "\<lambda>o' d p. F o' d p r"] by (simp add: vec_sum_def)
  qed
  have M: "h_inverse_matrix rd = h_inverse_matrix rd'"
    unfolding h_inverse_matrix_def
    using PM[of "\<lambda>o' d p. outer d d"] by (simp add: len)
  show ?thesis
  proof (cases "inverse3 (h_inverse_matrix rd)")
    case NonFinite
    then show ?thesis
      using M len by (simp add: upnp_quantities_def Let_def)
  next
    case (Finite h)
    define g where "g = mat_sum (length rd)
      (\<lambda>i. mat_mul (V_matrix h (outer (rd ! i) (rd ! i))) (LeftMultiply (wp ! i)))"
    define g' where "g' = mat_sum (length rd')
      (\<lambda>i. mat_mul (V_matrix h (outer (rd' ! i) (rd' ! i))) (LeftMultiply (wp' ! i)))"
    define j where "j = vec_sum (length rd)
      (\<lambda>i. mat_vec (V_matrix h (outer (rd ! i) (rd ! i))) (ro ! i))"
    define j' where "j' = vec_sum (length rd')
      (\<lambda>i. mat_vec (V_matrix h (outer (rd' ! i) (rd' ! i))) (ro' ! i))"
    have g: "g = g'"
      unfolding g_def g'_def
      using PM[of "\<lambda>o' d p. mat_mul (V_matrix h (outer d d)) (LeftMultiply p)"] .
    have j: "j = j'"
      unfolding j_def j'_def
      using PV[of "\<lambda>o' d p. mat_vec (V_matrix h (outer d d)) o'"] .
    have a: "mat_sum (length rd) (\<lambda>i. mat_mul (transpose_mat (Temp_A g (outer (rd ! i) (rd ! i)) (wp ! i)))
                                            (Temp_A g (outer (rd ! i) (rd ! i)) (wp ! i))) =
             mat_sum (length rd') (\<lambda>i. mat_mul (transpose_mat (Temp_A g (outer (rd' ! i) (rd' ! i)) (wp' ! i)))
                                            (Temp_A g (outer (rd' ! i) (rd' ! i)) (wp' ! i)))"
      using PM[of "\<lambda>o' d p. mat_mul (transpose_mat (Temp_A g (outer d d) p)) (Temp_A g (outer d d) p)"] .
    have b: "vec_sum (length rd) (\<lambda>i. mat_vec (transpose_mat (Temp_A g (outer (rd ! i) (rd ! i)) (wp ! i)))
                                            (Temp_B j (outer (rd ! i) (rd ! i)) (ro ! i))) =
             vec_sum (length rd') (\<lambda>i. mat_vec (transpose_mat (Temp_A g (outer (rd' ! i) (rd' ! i)) (wp' ! i)))
                                            (Temp_B j (outer (rd' ! i) (rd' ! i)) (ro' ! i)))"
      using PV[of "\<lambda>o' d p. mat_vec (transpose_mat (Temp_A g (outer d d) p)) (Temp_B j (outer d d) o')"] .
    have c: "(\<Sum>i<length rd. squaredNorm (Temp_B j (outer (rd ! i) (rd ! i)) (ro ! i))) =
             (\<Sum>i<length rd'. squaredNorm (Temp_B j (outer (rd' ! i) (rd' ! i)) (ro' ! i)))"
      using P[of "\<lambda>o' d p. squaredNorm (Temp_B j (outer d d) o')"] .
    have lhs: "upnp_quantities ro rd wp =
      (Finite h, Finite g, Finite j,
       Finite (mat_sum (length rd) (\<lambda>i. mat_mul (transpose_mat (Temp_A g (outer (rd ! i) (rd ! i)) (wp ! i)))
                                            (Temp_A g (outer (rd ! i) (rd ! i)) (wp ! i)))),
       Finite (vec_sum (length rd) (\<lambda>i. mat_vec (transpose_mat (Temp_A g (outer (rd ! i) (rd ! i)) (wp ! i)))
                                            (Temp_B j (outer (rd ! i) (rd ! i)) (ro ! i)))),
       Finite (\<Sum>i<length rd. squaredNorm (Temp_B j (outer (rd ! i) (rd ! i)) (ro ! i))))"
      by (simp add: upnp_quantities_def Let_def Finite g_def j_def)
    have rhs: "upnp_quantities ro' rd' wp' =
      (Finite h, Finite g', Finite j',
       Finite (mat_sum (length rd') (\<lambda>i. mat_mul (transpose_mat (Temp_A g' (outer (rd' ! i) (rd' ! i)) (wp' ! i)))
                                            (Temp_A g' (outer (rd' ! i) (rd' ! i)) (wp' ! i)))),
       Finite (vec_sum (length rd') (\<lambda>i. mat_vec (transpose_mat (Temp_A g' (outer (rd' ! i) (rd' ! i)) (wp' ! i)))
                                            (Temp_B j' (outer (rd' ! i) (rd' ! i)) (ro' ! i)))),
       Finite (\<Sum>i<length rd'. squaredNorm (Temp_B j' (outer (rd' ! i) (rd' ! i)) (ro' ! i))))"
      using Finite by (simp add: upnp_quantities_def Let_def M g'_def j'_def)
    show ?thesis
      unfolding lhs rhs using a b c by (simp add: g[symmetric] j[symmetric])
  qed
qed

subsection \<open>Evaluating small vectors\<close>

lemma forall_3: "(\<forall>i::3. P i) = (P 0 \<and> P 1 \<and> P 2)"
  by (metis exhaust_3)

lemma Vector3d_eq_iff:
  "(Vector3d a b c = Vector3d a' b' c') = (a = a' \<and> b = b' \<and> c = c')"
  by (simp add: fun_eq_iff forall_3 Vector3d_def)

lemma Vector3d_nth: "Vector3d a b c 0 = a" "Vector3d a b c 1 = b" "Vector3d a b c 2 = c"
  by (simp_all add: Vector3d_def)

lemma vec3_eq_iff: "((u::Vector3d) = v) = (u 0 = v 0 \<and> u 1 = v 1 \<and> u 2 = v 2)"
  by (simp add: fun_eq_iff forall_3)

lemma projects_to_identity:
  "projects_to scene_rotation scene_translation (Vector3d a b c) depth (Vector3d 0 0 0) (Vector3d x y z)
   = (x * x + y * y + z * z = 1 \<and> 0 < depth \<and> depth * x = a \<and> depth * y = b \<and> depth * z = c)"
  by (simp add: projects_to_def scene_rotation_def scene_translation_def squaredNorm_def sum_3
        vec3_eq_iff vec_add_def vec_scale_def mat_vec_def quaternion_rotation_matrix_def rows3_def
        Vector3d_nth)

lemma scene_is_noiseless:
  "unit_quaternion scene_rotation \<and>
   list_all2 (\<lambda>(p, depth) (o', d). projects_to scene_rotation scene_translation p depth o' d)
     (zip scene_world_points scene_depths) (zip scene_ray_origins scene_ray_directions)"
  by (simp add: scene_world_points_def scene_depths_def scene_ray_origins_def
        scene_ray_directions_def numeral_eq_Suc projects_to_identity)
     (simp add: unit_quaternion_def scene_rotation_def)

subsection \<open>Reading past the end of a vector\<close>

lemma for_loop_fails:
  "m < n \<Longrightarrow> \<forall>k<m. \<forall>s. \<exists>s'. body k s = Inr s' \<Longrightarrow> \<forall>s. body m s = Inl e \<Longrightarrow>
   for_loop 0 n body s = Inl e"
proof (induction n)
  case 0
  then show ?case by simp
next
  case (Suc n)
  show ?case
  proof (cases "m = n")
    case True
    have "\<exists>s'. for_loop 0 n body s = Inr s'"
      using Suc.prems(2) True by (intro for_loop_returns) simp
    then obtain s' where "for_loop 0 n body s = Inr s'" ..
    then show ?thesis
      using Suc.prems(3) True by (simp add: for_loop_Suc bind_result_def)
  next
    case False
    with Suc.prems(1) have "m < n" by simp
    then have "for_loop 0 n body s = Inl e"
      using Suc.IH Suc.prems(2,3) by blast
    then show ?thesis by (simp add: for_loop_Suc bind_result_def)
  qed
qed

lemma Upnp_short_world_points:
  assumes "length ray_origins = length ray_directions"
    and "length world_points < length ray_directions"
  shows "Upnp ray_origins ray_directions world_points (Ptr rotations) (Ptr translations)
         = Inl OutOfBounds"
proof -
  define ops where "ops = map (\<lambda>d. outer d d) ray_directions"
  define h where "h = inverse3 (h_inverse_matrix ray_directions)"
  have len: "length ops = length ray_directions" by (simp add: ops_def)
  have ok: "\<forall>k<length world_points. \<forall>s. \<exists>s'. helper_body world_points ray_origins ops h k s = Inr s'"
    using helper_body_returns[of _ world_points ray_origins ops h] assms len by simp
  have bad: "\<forall>s. helper_body world_points ray_origins ops h (length world_points) s = Inl OutOfBounds"
    using assms len by (simp add: helper_body_def vector_at_def bind_result_def Let_def split_def)
  have "for_loop 0 (length ray_origins) (helper_body world_points ray_origins ops h)
          (Finite Zero_mat, Finite Zero_vec) = Inl OutOfBounds"
    using assms by (intro for_loop_fails[OF _ ok bad]) simp
  then have "ComputeHelperMatrices world_points ray_origins ops h (Ptr ()) (Ptr ()) = Inl OutOfBounds"
    using assms len by (simp add: ComputeHelperMatrices_def)
  then show ?thesis
    by (simp add: Upnp_def UpnpSteps_def ComputeH_closed_form bind_result_def ops_def h_def)
qed

lemma Upnp_long_world_points:
  assumes "length ray_origins = length ray_directions"
    and "length ray_directions < length world_points"
  shows "Upnp ray_origins ray_directions world_points (Ptr rotations) (Ptr translations)
         = Inl OutOfBounds"
proof -
  define ops where "ops = map (\<lambda>d. outer d d) ray_directions"
  define h where "h = inverse3 (h_inverse_matrix ray_directions)"
  have len: "length ops = length ray_directions" by (simp add: ops_def)
  have "\<exists>s'. for_loop 0 (length ray_origins) (helper_body world_points ray_origins ops h)
          (Finite Zero_mat, Finite Zero_vec) = Inr s'"
    using helper_body_returns[of _ world_points ray_origins ops h] assms len
    by (intro for_loop_returns) simp
  then obtain g j where gj:
    "ComputeHelperMatrices world_points ray_origins ops h (Ptr ()) (Ptr ()) = Inr (g, j)"
    using assms len by (auto simp add: ComputeHelperMatrices_def)
  have ok: "\<forall>k<length ray_directions. \<forall>s. \<exists>s'. cost_body world_points ray_origins ops g j k s = Inr s'"
    using cost_body_returns[of _ world_points ray_origins ops g j] assms len by simp
  have bad: "\<forall>s. cost_body world_points ray_origins ops g j (length ray_directions) s = Inl OutOfBounds"
    using assms len by (simp add: cost_body_def vector_at_def bind_result_def Let_def split_def)
  have "for_loop 0 (length world_points) (cost_body world_points ray_origins ops g j)
          (Finite Zero_mat, Finite Zero_vec, Finite 0) = Inl OutOfBounds"
    using assms by (intro for_loop_fails[OF _ ok bad]) simp
  then have "ComputeCostMatrices world_points ray_origins ops g j (Ptr ()) (Ptr ()) = Inl OutOfBounds"
    by (simp add: ComputeCostMatrices_def)
  with gj show ?thesis
    by (simp add: Upnp_def UpnpSteps_def ComputeH_closed_form bind_result_def ops_def h_def)
qed

lemma Upnp_contract_checks:
  "Upnp ray_origins ray_directions world_points Null solution_translations = Inl CheckFailed"
  "Upnp ray_origins ray_directions world_points solution_rotations Null = Inl CheckFailed"
  "length ray_origins \<noteq> length ray_directions \<Longrightarrow>
   Upnp ray_origins ray_directions world_points solution_rotations solution_translations
     = Inl CheckFailed"
  by (simp_all add: Upnp_def UpnpSteps_def ComputeH_closed_form ComputeHelperMatrices_def
        bind_result_def Let_def split: ptr.splits)

subsection \<open>The concrete inputs\<close>

lemma two_lengths:
  "length two_ray_origins = 2" "length two_ray_directions = 2" "length two_world_points = 2"
  "length two_outer_products = 2"
  by (simp_all add: two_ray_origins_def two_ray_directions_def two_world_points_def
        two_outer_products_def)

lemma h_inverse_matrix_two:
  "h_inverse_matrix [u, v] = (\<lambda>r c. 2 * Identity r c - (u r * u c + v r * v c))"
  by (simp add: h_inverse_matrix_def mat_sub_def mat_scale_def mat_sum_def outer_def
        fun_eq_iff lessThan_Suc numeral_2_eq_2)

lemma determinant3_parallel:
  "determinant3 (h_inverse_matrix [Vector3d 1 0 0, Vector3d 1 0 0]) = 0"
  by (simp add: h_inverse_matrix_two determinant3_def cofactor_3x3_def sum_3 Identity_def
        Vector3d_def index3_wrap)

lemma determinant3_two_ray_directions:
  "determinant3 (h_inverse_matrix two_ray_directions) = 2"
  by (simp add: two_ray_directions_def h_inverse_matrix_two determinant3_def cofactor_3x3_def
        sum_3 Identity_def Vector3d_def index3_wrap)

lemma rotation_example:
  "mat_vec (quaternion_rotation_matrix (Quaterniond (1/2) (1/2) (1/2) (1/2))) (Vector3d 1 2 3)
   = Vector3d 3 1 2"
  by (simp add: vec3_eq_iff mat_vec_def sum_3 quaternion_rotation_matrix_def rows3_def
        Vector3d_nth)

lemma mset_zip3_swap:
  "mset (zip [a, b] (zip [c, d] [e, f])) = mset (zip [b, a] (zip [d, c] [f, e]))"
  by (simp add: add_mset_commute)

lemma inverse3_two_ray_directions:
  "inverse3 (h_inverse_matrix two_ray_directions)
   = Finite (rows3 (Vector3d 1 0 0) (Vector3d 0 1 0) (Vector3d 0 0 (1/2)))"
proof -
  have "(\<lambda>r c. cofactor_3x3 (h_inverse_matrix two_ray_directions) c r * (1 / 2))
        = rows3 (Vector3d 1 0 0) (Vector3d 0 1 0) (Vector3d 0 0 (1/2))"
    by (simp add: fun_eq_iff forall_3 two_ray_directions_def h_inverse_matrix_two
          cofactor_3x3_def Identity_def Vector3d_def rows3_def index3_wrap)
  then show ?thesis
    by (simp add: inverse3_def determinant3_two_ray_directions Let_def)
qed

lemma two_gamma:
  "(\<Sum>i<2. squaredNorm (Temp_B Zero_vec (two_outer_products ! i) (two_ray_origins ! i))) = 1"
  by (simp add: lessThan_Suc numeral_2_eq_2 two_outer_products_def two_ray_origins_def
        squaredNorm_def sum_3 Temp_B_def mat_vec_def mat_neg_def mat_sub_def outer_def
        Identity_def vec_add_def Zero_vec_def Vector3d_def)

lemma UpnpSteps_parallel_rays:
  "UpnpSteps two_ray_origins [Vector3d 1 0 0, Vector3d 1 0 0] two_world_points =
     Inr (NonFinite, NonFinite, NonFinite, NonFinite, NonFinite, NonFinite)"
proof -
  have "inverse3 (h_inverse_matrix [Vector3d 1 0 0, Vector3d 1 0 0]) = NonFinite"
    by (simp add: inverse3_def determinant3_parallel)
  then have "upnp_quantities two_ray_origins [Vector3d 1 0 0, Vector3d 1 0 0] two_world_points =
     (NonFinite, NonFinite, NonFinite, NonFinite, NonFinite, NonFinite)"
    by (simp add: upnp_quantities_def)
  moreover have "UpnpSteps two_ray_origins [Vector3d 1 0 0, Vector3d 1 0 0] two_world_points =
     Inr (upnp_quantities two_ray_origins [Vector3d 1 0 0, Vector3d 1 0 0] two_world_points)"
    by (rule UpnpSteps_closed_form) (simp_all add: two_lengths)
  ultimately show ?thesis by simp
qed

section \<open>The claims\<close>

text \<open>
  Claim C1. Round trip: for a noiseless synthetic scene built from a known pose, the candidate
  list returned by \<^verbatim>\<open>Upnp\<close> contains that pose. The code fails this: on the scene below, six
  points projected exactly under the identity rotation and the zero translation, \<^verbatim>\<open>Upnp\<close>
  returns with both candidate lists empty.
\<close>

theorem Upnp_round_trip_scene:
  "unit_quaternion scene_rotation \<and>
   list_all2 (\<lambda>(p, depth) (o', d). projects_to scene_rotation scene_translation p depth o' d)
     (zip scene_world_points scene_depths) (zip scene_ray_origins scene_ray_directions) \<and>
   Upnp scene_ray_origins scene_ray_directions scene_world_points (Ptr []) (Ptr []) = Inr ([], [])"
proof -
  have "Upnp scene_ray_origins scene_ray_directions scene_world_points (Ptr []) (Ptr [])
        = Inr ([], [])"
    by (rule Upnp_equal_lengths)
       (simp_all add: scene_ray_origins_def scene_ray_directions_def scene_world_points_def)
  with scene_is_noiseless show ?thesis by simp
qed

text \<open>
  Claim C2. \<^verbatim>\<open>Upnp\<close> never populates the candidate lists: whenever the call returns, both
  output sequences are empty, whatever the inputs and the prior contents of the output
  vectors; and for input sequences of one length and valid output pointers the call does
  return.
\<close>

theorem Upnp_never_populates:
  "(Upnp ray_origins ray_directions world_points solution_rotations solution_translations = Inr out
      \<longrightarrow> out = ([], [])) \<and>
   (length ray_origins = length ray_directions \<and> length world_points = length ray_directions
      \<longrightarrow> Upnp ray_origins ray_directions world_points (Ptr rotations) (Ptr translations)
          = Inr ([], []))"
  using Upnp_returns_cleared Upnp_equal_lengths by blast

theorem Upnp_never_populates_witness:
  "length two_ray_origins = length two_ray_directions \<and>
   length two_world_points = length two_ray_directions \<and>
   Upnp two_ray_origins two_ray_directions two_world_points
        (Ptr [Quaterniond 1 0 0 0]) (Ptr [Vector3d 1 2 3]) = Inr ([], [])"
  using Upnp_never_populates[of two_ray_origins two_ray_directions two_world_points
      "Ptr [Quaterniond 1 0 0 0]" "Ptr [Vector3d 1 2 3]" "([], [])"
      "[Quaterniond 1 0 0 0]" "[Vector3d 1 2 3]"]
  by (simp add: two_lengths)

text \<open>
  Claim C3, amended. For every sequence of ray directions the Direction Aggregator appends
  the outer products \<open>d\<^sub>i d\<^sub>i\<^sup>T\<close>, in input order, to the list it is given (\<^verbatim>\<open>Upnp\<close> passes
  an empty one); and whenever \<open>N\<cdot>I - \<Sum> d\<^sub>i d\<^sub>i\<^sup>T\<close> is non-singular, the returned \<open>H\<close> is its
  inverse.
\<close>

theorem ComputeH_inverse:
  "(\<exists>h. ComputeHMatrixAndRayDirectionsOuterProducts ray_directions (Ptr ops) =
          Inr (h, ops @ map (\<lambda>d. outer d d) ray_directions)) \<and>
   (determinant3 (h_inverse_matrix ray_directions) \<noteq> 0 \<longrightarrow>
      (\<exists>h. ComputeHMatrixAndRayDirectionsOuterProducts ray_directions (Ptr ops) =
              Inr (Finite h, ops @ map (\<lambda>d. outer d d) ray_directions) \<and>
           mat_mul h (h_inverse_matrix ray_directions) = Identity \<and>
           mat_mul (h_inverse_matrix ray_directions) h = Identity))"
  using inverse3_left[of "h_inverse_matrix ray_directions"]
  by (auto simp add: ComputeH_closed_form)

theorem ComputeH_inverse_witness:
  "determinant3 (h_inverse_matrix two_ray_directions) \<noteq> 0 \<and>
   ComputeHMatrixAndRayDirectionsOuterProducts two_ray_directions (Ptr []) =
     Inr (Finite (rows3 (Vector3d 1 0 0) (Vector3d 0 1 0) (Vector3d 0 0 (1/2))),
          two_outer_products) \<and>
   mat_mul (rows3 (Vector3d 1 0 0) (Vector3d 0 1 0) (Vector3d 0 0 (1/2)))
     (h_inverse_matrix two_ray_directions) = Identity \<and>
   mat_mul (h_inverse_matrix two_ray_directions)
     (rows3 (Vector3d 1 0 0) (Vector3d 0 1 0) (Vector3d 0 0 (1/2))) = Identity"
proof -
  have d: "determinant3 (h_inverse_matrix two_ray_directions) \<noteq> 0"
    by (simp add: determinant3_two_ray_directions)
  have c: "ComputeHMatrixAndRayDirectionsOuterProducts two_ray_directions (Ptr []) =
     Inr (Finite (rows3 (Vector3d 1 0 0) (Vector3d 0 1 0) (Vector3d 0 0 (1/2))),
          two_outer_products)"
    using inverse3_two_ray_directions
    by (simp add: ComputeH_closed_form)
       (simp add: two_ray_directions_def two_outer_products_def)
  from ComputeH_inverse[of two_ray_directions "[]"] d c show ?thesis
    by auto
qed

text \<open>
  The claim as stated, for every sequence of directions, fails where the matrix is singular:
  for two equal unit directions its determinant is zero, no inverse exists, and the result
  of the division by the determinant is not finite.
\<close>

theorem ComputeH_parallel_rays_counterexample:
  "determinant3 (h_inverse_matrix [Vector3d 1 0 0, Vector3d 1 0 0]) = 0 \<and>
   ComputeHMatrixAndRayDirectionsOuterProducts [Vector3d 1 0 0, Vector3d 1 0 0] (Ptr []) =
     Inr (NonFinite,
          [outer (Vector3d 1 0 0) (Vector3d 1 0 0), outer (Vector3d 1 0 0) (Vector3d 1 0 0)])"
  by (simp add: ComputeH_closed_form inverse3_def determinant3_parallel)

text \<open>
  Claim C4. For world points, ray origins and outer products of one length and every
  matrix \<open>H\<close>, the Helper-Matrix Builder returns \<open>G = \<Sum> V\<^sub>i \<Phi>(worldPoint\<^sub>i)\<close> and
  \<open>J = \<Sum> V\<^sub>i origin\<^sub>i\<close> with \<open>V\<^sub>i = H (outer_product\<^sub>i - I)\<close>.
\<close>

theorem ComputeHelperMatrices_sums:
  "length world_points = length ray_origins \<Longrightarrow> length outer_products = length ray_origins \<Longrightarrow>
   ComputeHelperMatrices world_points ray_origins outer_products (Finite h) (Ptr g0) (Ptr j0) =
     Inr (Finite (mat_sum (length ray_origins)
                    (\<lambda>i. mat_mul (V_matrix h (outer_products ! i))
                            (LeftMultiply (world_points ! i)))),
          Finite (vec_sum (length ray_origins)
                    (\<lambda>i. mat_vec (V_matrix h (outer_products ! i)) (ray_origins ! i))))"
  using helper_loop_finite[of "length ray_origins" world_points ray_origins outer_products h]
  by (simp add: ComputeHelperMatrices_def)

theorem ComputeHelperMatrices_sums_witness:
  "length two_world_points = length two_ray_origins \<and>
   length two_outer_products = length two_ray_origins \<and>
   ComputeHelperMatrices two_world_points two_ray_origins two_outer_products
     (Finite Identity) (Ptr ()) (Ptr ()) =
     Inr (Finite (mat_sum 2
                    (\<lambda>i. mat_mul (V_matrix Identity (two_outer_products ! i))
                            (LeftMultiply (two_world_points ! i)))),
          Finite (vec_sum 2
                    (\<lambda>i. mat_vec (V_matrix Identity (two_outer_products ! i))
                            (two_ray_origins ! i))))"
  using ComputeHelperMatrices_sums[of two_world_points two_ray_origins two_outer_products
      Identity "()" "()"]
  by (simp add: two_lengths)

text \<open>
  Claim C5, amended. For inputs of one length and finite \<open>G\<close> and \<open>J\<close> the Cost-Matrix
  Assembler returns \<open>A = \<Sum> Temp_A\<^sub>i\<^sup>T Temp_A\<^sub>i\<close>, \<open>b = \<Sum> Temp_A\<^sub>i\<^sup>T Temp_B\<^sub>i\<close> and
  \<open>gamma = \<Sum> \<parallel>Temp_B\<^sub>i\<parallel>\<^sup>2\<close>, which is not negative.
\<close>

theorem ComputeCostMatrices_sums:
  "length ray_origins = length world_points \<Longrightarrow> length outer_products = length world_points \<Longrightarrow>
   ComputeCostMatrices world_points ray_origins outer_products (Finite g) (Finite j)
       (Ptr a0) (Ptr b0) =
     Inr (Finite (mat_sum (length world_points) (\<lambda>i. mat_mul
                    (transpose_mat (Temp_A g (outer_products ! i) (world_points ! i)))
                    (Temp_A g (outer_products ! i) (world_points ! i)))),
          Finite (vec_sum (length world_points) (\<lambda>i. mat_vec
                    (transpose_mat (Temp_A g (outer_products ! i) (world_points ! i)))
                    (Temp_B j (outer_products ! i) (ray_origins ! i)))),
          Finite (\<Sum>i<length world_points.
                    squaredNorm (Temp_B j (outer_products ! i) (ray_origins ! i)))) \<and>
   0 \<le> (\<Sum>i<length world_points. squaredNorm (Temp_B j (outer_products ! i) (ray_origins ! i)))"
proof -
  assume l: "length ray_origins = length world_points"
    "length outer_products = length world_points"
  have "0 \<le> (\<Sum>i<length world_points.
               squaredNorm (Temp_B j (outer_products ! i) (ray_origins ! i)))"
    by (intro sum_nonneg) (simp add: squaredNorm_nonneg)
  then show ?thesis
    using cost_loop_finite[of "length world_points" world_points ray_origins outer_products g j] l
    by (simp add: ComputeCostMatrices_def)
qed

theorem ComputeCostMatrices_sums_witness:
  "length two_ray_origins = length two_world_points \<and>
   length two_outer_products = length two_world_points \<and>
   ComputeCostMatrices two_world_points two_ray_origins two_outer_products
     (Finite Zero_mat) (Finite Zero_vec) (Ptr ()) (Ptr ()) =
     Inr (Finite (mat_sum 2 (\<lambda>i. mat_mul
                    (transpose_mat (Temp_A Zero_mat (two_outer_products ! i) (two_world_points ! i)))
                    (Temp_A Zero_mat (two_outer_products ! i) (two_world_points ! i)))),
          Finite (vec_sum 2 (\<lambda>i. mat_vec
                    (transpose_mat (Temp_A Zero_mat (two_outer_products ! i) (two_world_points ! i)))
                    (Temp_B Zero_vec (two_outer_products ! i) (two_ray_origins ! i)))),
          Finite 1)"
  using ComputeCostMatrices_sums[of two_ray_origins two_world_points two_outer_products
      Zero_mat Zero_vec "()" "()"]
  by (simp add: two_lengths two_gamma)

text \<open>
  The claim as stated, for every input, fails where \<open>J\<close> is not finite: \<open>Temp_B\<^sub>i\<close> contains
  \<open>J\<close>, so \<open>b\<close> and \<open>gamma\<close> are not finite either, and \<open>gamma\<close> is not a number that is at least
  0. \<^verbatim>\<open>Upnp\<close> passes such a \<open>J\<close> (and \<open>G\<close>) when the ray directions are parallel, where the
  direction matrix is singular.
\<close>

theorem ComputeCostMatrices_nonfinite_J_counterexample:
  "ComputeCostMatrices two_world_points two_ray_origins two_outer_products
     (Finite Zero_mat) NonFinite (Ptr ()) (Ptr ()) =
     Inr (Finite (mat_sum 2 (\<lambda>i. mat_mul
                    (transpose_mat (Temp_A Zero_mat (two_outer_products ! i) (two_world_points ! i)))
                    (Temp_A Zero_mat (two_outer_products ! i) (two_world_points ! i)))),
          NonFinite, NonFinite) \<and>
   UpnpSteps two_ray_origins [Vector3d 1 0 0, Vector3d 1 0 0] two_world_points =
     Inr (NonFinite, NonFinite, NonFinite, NonFinite, NonFinite, NonFinite)"
  using cost_loop_j_nonfinite[of 2 two_world_points two_ray_origins two_outer_products Zero_mat]
  by (simp add: ComputeCostMatrices_def two_lengths UpnpSteps_parallel_rays)

text \<open>
  Claim C6. The left-multiplication table is the quaternion-to-rotation formula: for every
  point \<open>p\<close> and every unit quaternion \<open>q\<close>, \<open>\<Phi>(p)\<close> applied to the monomial vector of \<open>q\<close> is
  the rotation of \<open>p\<close> by \<open>q\<close>; \<open>\<Phi>\<close> is linear in \<open>p\<close>, and each entry is 0, plus or minus a
  coordinate of \<open>p\<close>, or plus or minus its double.
\<close>

theorem LeftMultiply_is_rotation_table:
  "unit_quaternion q \<Longrightarrow>
   mat_vec (LeftMultiply p) (quaternion_monomials q) = mat_vec (quaternion_rotation_matrix q) p \<and>
   LeftMultiply (vec_add (vec_scale a p) (vec_scale b p')) =
     mat_add (mat_scale a (LeftMultiply p)) (mat_scale b (LeftMultiply p')) \<and>
   LeftMultiply p r c \<in> {0, p 0, - p 0, 2 * p 0, - 2 * p 0, p 1, - p 1, 2 * p 1, - 2 * p 1,
                           p 2, - p 2, 2 * p 2, - 2 * p 2}"
  using LeftMultiply_rotation LeftMultiply_linear LeftMultiply_entries by blast

theorem LeftMultiply_is_rotation_table_witness:
  "unit_quaternion (Quaterniond (1/2) (1/2) (1/2) (1/2)) \<and>
   mat_vec (LeftMultiply (Vector3d 1 2 3)) (quaternion_monomials (Quaterniond (1/2) (1/2) (1/2) (1/2)))
     = Vector3d 3 1 2"
  using LeftMultiply_is_rotation_table[of "Quaterniond (1/2) (1/2) (1/2) (1/2)" "Vector3d 1 2 3"]
  by (simp add: unit_quaternion_def rotation_example)

text \<open>
  Claim C7, amended. For every input with a finite \<open>G\<close> (any world points, ray origins, outer
  products and \<open>J\<close>) the matrix \<open>A\<close> accumulated by the Cost-Matrix Assembler is finite,
  symmetric and positive semi-definite, after every step of the accumulation (the state
  after the first \<open>k\<close> iterations of the loop) and at the return.
\<close>

theorem a_matrix_symmetric_psd:
  "(for_loop 0 k (cost_body world_points ray_origins outer_products (Finite g) j_matrix)
      (Finite Zero_mat, Finite Zero_vec, Finite 0) = Inr (a_fp, b, gamma)
    \<longrightarrow> (\<exists>a. a_fp = Finite a \<and> a r c = a c r \<and> 0 \<le> quadratic_form a x)) \<and>
   (ComputeCostMatrices world_points ray_origins outer_products (Finite g) j_matrix
      a_matrix b_vector = Inr (a_fp', b', gamma')
    \<longrightarrow> (\<exists>a. a_fp' = Finite a \<and> a r' c' = a c' r' \<and> 0 \<le> quadratic_form a x'))"
proof (intro conjI impI)
  assume "for_loop 0 k (cost_body world_points ray_origins outer_products (Finite g) j_matrix)
      (Finite Zero_mat, Finite Zero_vec, Finite 0) = Inr (a_fp, b, gamma)"
  then have "a_matrix_invariant (a_fp, b, gamma)"
    by (rule cost_loop_invariant) (rule a_matrix_invariant_init)
  then show "\<exists>a. a_fp = Finite a \<and> a r c = a c r \<and> 0 \<le> quadratic_form a x"
    by (cases a_fp) (simp_all add: a_matrix_invariant_def)
next
  assume "ComputeCostMatrices world_points ray_origins outer_products (Finite g) j_matrix
      a_matrix b_vector = Inr (a_fp', b', gamma')"
  then have "for_loop 0 (length world_points)
      (cost_body world_points ray_origins outer_products (Finite g) j_matrix)
      (Finite Zero_mat, Finite Zero_vec, Finite 0) = Inr (a_fp', b', gamma')"
    by (simp add: ComputeCostMatrices_def split: ptr.splits)
  then have "a_matrix_invariant (a_fp', b', gamma')"
    by (rule cost_loop_invariant) (rule a_matrix_invariant_init)
  then show "\<exists>a. a_fp' = Finite a \<and> a r' c' = a c' r' \<and> 0 \<le> quadratic_form a x'"
    by (cases a_fp') (simp_all add: a_matrix_invariant_def)
qed

theorem a_matrix_symmetric_psd_witness:
  "(\<exists>a_fp b gamma.
      for_loop 0 1 (cost_body two_world_points two_ray_origins two_outer_products
                      (Finite Zero_mat) (Finite Zero_vec))
        (Finite Zero_mat, Finite Zero_vec, Finite 0) = Inr (a_fp, b, gamma) \<and>
      (\<exists>a. a_fp = Finite a \<and> a 4 7 = a 7 4 \<and>
           0 \<le> quadratic_form a (Vector10d 1 (- 1) 0 2 0 0 (- 3) 0 0 1))) \<and>
   (\<exists>a_fp b gamma.
      ComputeCostMatrices two_world_points two_ray_origins two_outer_products
        (Finite Zero_mat) (Finite Zero_vec) (Ptr ()) (Ptr ()) = Inr (a_fp, b, gamma) \<and>
      (\<exists>a. a_fp = Finite a \<and> a 4 7 = a 7 4 \<and>
           0 \<le> quadratic_form a (Vector10d 1 (- 1) 0 2 0 0 (- 3) 0 0 1)))"
proof (intro conjI)
  obtain a_fp b gamma where l: "for_loop 0 1
      (cost_body two_world_points two_ray_origins two_outer_products
         (Finite Zero_mat) (Finite Zero_vec))
      (Finite Zero_mat, Finite Zero_vec, Finite 0) = Inr (a_fp, b, gamma)"
    using cost_loop_finite[of 1 two_world_points two_ray_origins two_outer_products
        Zero_mat Zero_vec]
    by (simp add: two_lengths)
  from l conjunct1[OF a_matrix_symmetric_psd[of 1 two_world_points two_ray_origins
      two_outer_products Zero_mat "Finite Zero_vec" a_fp b gamma 4 7
      "Vector10d 1 (- 1) 0 2 0 0 (- 3) 0 0 1"], THEN mp, OF l]
  show "\<exists>a_fp b gamma.
      for_loop 0 1 (cost_body two_world_points two_ray_origins two_outer_products
                      (Finite Zero_mat) (Finite Zero_vec))
        (Finite Zero_mat, Finite Zero_vec, Finite 0) = Inr (a_fp, b, gamma) \<and>
      (\<exists>a. a_fp = Finite a \<and> a 4 7 = a 7 4 \<and>
           0 \<le> quadratic_form a (Vector10d 1 (- 1) 0 2 0 0 (- 3) 0 0 1))"
    by blast
next
  obtain a_fp b gamma where l: "ComputeCostMatrices two_world_points two_ray_origins
      two_outer_products (Finite Zero_mat) (Finite Zero_vec) (Ptr ()) (Ptr ())
      = Inr (a_fp, b, gamma)"
    using cost_loop_finite[of 2 two_world_points two_ray_origins two_outer_products
        Zero_mat Zero_vec]
    by (simp add: two_lengths ComputeCostMatrices_def)
  from l conjunct2[OF a_matrix_symmetric_psd[of _ two_world_points two_ray_origins
      two_outer_products Zero_mat "Finite Zero_vec" _ _ _ _ _ _ "Ptr ()" "Ptr ()" a_fp b gamma
      4 7 "Vector10d 1 (- 1) 0 2 0 0 (- 3) 0 0 1"], THEN mp, OF l]
  show "\<exists>a_fp b gamma.
      ComputeCostMatrices two_world_points two_ray_origins two_outer_products
        (Finite Zero_mat) (Finite Zero_vec) (Ptr ()) (Ptr ()) = Inr (a_fp, b, gamma) \<and>
      (\<exists>a. a_fp = Finite a \<and> a 4 7 = a 7 4 \<and>
           0 \<le> quadratic_form a (Vector10d 1 (- 1) 0 2 0 0 (- 3) 0 0 1))"
    by blast
qed

text \<open>
  The claim as stated, for any \<open>G\<close>, fails where \<open>G\<close> is not finite: \<open>Temp_A\<^sub>i\<close> contains \<open>G\<close>, so
  after the first step \<open>A\<close> is not finite, and such a matrix is neither symmetric nor positive
  semi-definite. \<^verbatim>\<open>Upnp\<close> passes such a \<open>G\<close> when the ray directions are parallel, where the
  direction matrix is singular.
\<close>

theorem a_matrix_nonfinite_G_counterexample:
  "for_loop 0 1 (cost_body two_world_points two_ray_origins two_outer_products
                   NonFinite (Finite Zero_vec))
     (Finite Zero_mat, Finite Zero_vec, Finite 0) =
     Inr (NonFinite, NonFinite,
          Finite (\<Sum>i<1. squaredNorm (Temp_B Zero_vec (two_outer_products ! i)
                                        (two_ray_origins ! i)))) \<and>
   ComputeCostMatrices two_world_points two_ray_origins two_outer_products
     NonFinite (Finite Zero_vec) (Ptr ()) (Ptr ()) = Inr (NonFinite, NonFinite, Finite 1) \<and>
   UpnpSteps two_ray_origins [Vector3d 1 0 0, Vector3d 1 0 0] two_world_points =
     Inr (NonFinite, NonFinite, NonFinite, NonFinite, NonFinite, NonFinite)"
proof (intro conjI)
  show "for_loop 0 1 (cost_body two_world_points two_ray_origins two_outer_products
                   NonFinite (Finite Zero_vec))
     (Finite Zero_mat, Finite Zero_vec, Finite 0) =
     Inr (NonFinite, NonFinite,
          Finite (\<Sum>i<1. squaredNorm (Temp_B Zero_vec (two_outer_products ! i)
                                        (two_ray_origins ! i))))"
    using cost_loop_g_nonfinite[of 1 two_world_points two_ray_origins two_outer_products Zero_vec]
    by (simp add: two_lengths)
  show "ComputeCostMatrices two_world_points two_ray_origins two_outer_products
     NonFinite (Finite Zero_vec) (Ptr ()) (Ptr ()) = Inr (NonFinite, NonFinite, Finite 1)"
    using cost_loop_g_nonfinite[of 2 two_world_points two_ray_origins two_outer_products Zero_vec]
    by (simp add: ComputeCostMatrices_def two_lengths two_gamma)
  show "UpnpSteps two_ray_origins [Vector3d 1 0 0, Vector3d 1 0 0] two_world_points =
     Inr (NonFinite, NonFinite, NonFinite, NonFinite, NonFinite, NonFinite)"
    by (rule UpnpSteps_parallel_rays)
qed

text \<open>
  Claim C8. In exact arithmetic, a permutation applied to the three sequences of
  correspondences at once leaves the computed \<open>H\<close>, \<open>G\<close>, \<open>J\<close>, \<open>A\<close>, \<open>b\<close> and \<open>gamma\<close> as
  they are: each is a sum of one term per correspondence.
\<close>

theorem Upnp_quantities_permutation_invariant:
  "length ro = length rd \<Longrightarrow> length wp = length rd \<Longrightarrow>
   length ro' = length rd' \<Longrightarrow> length wp' = length rd' \<Longrightarrow>
   mset (zip ro (zip rd wp)) = mset (zip ro' (zip rd' wp')) \<Longrightarrow>
   UpnpSteps ro rd wp = UpnpSteps ro' rd' wp' \<and>
   UpnpSteps ro rd wp = Inr (upnp_quantities ro rd wp)"
proof -
  assume l: "length ro = length rd" "length wp = length rd"
    and l': "length ro' = length rd'" "length wp' = length rd'"
    and m: "mset (zip ro (zip rd wp)) = mset (zip ro' (zip rd' wp'))"
  have "UpnpSteps ro rd wp = Inr (upnp_quantities ro rd wp)"
    by (rule UpnpSteps_closed_form[OF l])
  moreover have "UpnpSteps ro' rd' wp' = Inr (upnp_quantities ro' rd' wp')"
    by (rule UpnpSteps_closed_form[OF l'])
  moreover have "upnp_quantities ro rd wp = upnp_quantities ro' rd' wp'"
    by (rule upnp_quantities_permuted[OF l l' m])
  ultimately show ?thesis by simp
qed

theorem Upnp_quantities_permutation_invariant_witness:
  "length [Vector3d 0 0 1, Vector3d 0 0 0] = length [Vector3d 1 0 0, Vector3d 0 1 0] \<and>
   length [Vector3d 2 0 0, Vector3d 0 3 0] = length [Vector3d 1 0 0, Vector3d 0 1 0] \<and>
   length [Vector3d 0 0 0, Vector3d 0 0 1] = length [Vector3d 0 1 0, Vector3d 1 0 0] \<and>
   length [Vector3d 0 3 0, Vector3d 2 0 0] = length [Vector3d 0 1 0, Vector3d 1 0 0] \<and>
   mset (zip [Vector3d 0 0 1, Vector3d 0 0 0]
          (zip [Vector3d 1 0 0, Vector3d 0 1 0] [Vector3d 2 0 0, Vector3d 0 3 0])) =
   mset (zip [Vector3d 0 0 0, Vector3d 0 0 1]
          (zip [Vector3d 0 1 0, Vector3d 1 0 0] [Vector3d 0 3 0, Vector3d 2 0 0])) \<and>
   UpnpSteps [Vector3d 0 0 1, Vector3d 0 0 0] [Vector3d 1 0 0, Vector3d 0 1 0]
     [Vector3d 2 0 0, Vector3d 0 3 0] =
   UpnpSteps [Vector3d 0 0 0, Vector3d 0 0 1] [Vector3d 0 1 0, Vector3d 1 0 0]
     [Vector3d 0 3 0, Vector3d 2 0 0]"
proof -
  have l: "length [Vector3d 0 0 1, Vector3d 0 0 0] = length [Vector3d 1 0 0, Vector3d 0 1 0]"
    "length [Vector3d 2 0 0, Vector3d 0 3 0] = length [Vector3d 1 0 0, Vector3d 0 1 0]"
    "length [Vector3d 0 0 0, Vector3d 0 0 1] = length [Vector3d 0 1 0, Vector3d 1 0 0]"
    "length [Vector3d 0 3 0, Vector3d 2 0 0] = length [Vector3d 0 1 0, Vector3d 1 0 0]"
    by simp_all
  have m: "mset (zip [Vector3d 0 0 1, Vector3d 0 0 0]
          (zip [Vector3d 1 0 0, Vector3d 0 1 0] [Vector3d 2 0 0, Vector3d 0 3 0])) =
   mset (zip [Vector3d 0 0 0, Vector3d 0 0 1]
          (zip [Vector3d 0 1 0, Vector3d 1 0 0] [Vector3d 0 3 0, Vector3d 2 0 0]))"
    by (rule mset_zip3_swap)
  from Upnp_quantities_permutation_invariant[OF l m] l m show ?thesis
    by blast
qed

text \<open>
  Claim C9. A call of \<^verbatim>\<open>Upnp\<close> with input sequences of different lengths, or with a null
  output pointer, fails a contract check. The code fails this for \<^verbatim>\<open>world_points\<close>, whose
  length it never checks: with two ray origins and two ray directions, one world point makes
  the loop of \<^verbatim>\<open>ComputeHelperMatrices\<close> read \<^verbatim>\<open>world_points[1]\<close>, and three world points make
  the loop of \<^verbatim>\<open>ComputeCostMatrices\<close> read \<^verbatim>\<open>outer_products[2]\<close>, past the end in both cases.
\<close>

theorem Upnp_world_points_length_unchecked:
  "Upnp two_ray_origins two_ray_directions [Vector3d 2 0 0] (Ptr []) (Ptr [])
     = Inl OutOfBounds \<and>
   Upnp two_ray_origins two_ray_directions [Vector3d 2 0 0, Vector3d 0 3 0, Vector3d 0 0 4]
     (Ptr []) (Ptr []) = Inl OutOfBounds"
  by (simp add: Upnp_short_world_points Upnp_long_world_points two_lengths)

text \<open>
  Claim C10. When the ray origins, ray directions and world points have one length \<open>n\<close>
  (and so do the outer products, which \<^verbatim>\<open>Upnp\<close> computes from the directions), no indexing
  in the two loops is out of bounds.
\<close>

theorem Upnp_indexing_in_bounds:
  "length ray_origins = n \<Longrightarrow> length ray_directions = n \<Longrightarrow> length world_points = n \<Longrightarrow>
   length outer_products = n \<Longrightarrow>
   ComputeHelperMatrices world_points ray_origins outer_products h_matrix g_matrix j_matrix
     \<noteq> Inl OutOfBounds \<and>
   ComputeCostMatrices world_points ray_origins outer_products g j a_matrix b_vector
     \<noteq> Inl OutOfBounds \<and>
   UpnpSteps ray_origins ray_directions world_points \<noteq> Inl OutOfBounds \<and>
   Upnp ray_origins ray_directions world_points solution_rotations solution_translations
     \<noteq> Inl OutOfBounds"
proof -
  assume l: "length ray_origins = n" "length ray_directions = n" "length world_points = n"
    "length outer_products = n"
  have "\<exists>s'. for_loop 0 n (helper_body world_points ray_origins outer_products h_matrix)
          (Finite Zero_mat, Finite Zero_vec) = Inr s'"
    using helper_body_returns[of _ world_points ray_origins outer_products h_matrix] l
    by (intro for_loop_returns) simp
  then have 1: "ComputeHelperMatrices world_points ray_origins outer_products h_matrix
      g_matrix j_matrix \<noteq> Inl OutOfBounds"
    using l by (auto simp add: ComputeHelperMatrices_def split: ptr.splits)
  have "\<exists>s'. for_loop 0 n (cost_body world_points ray_origins outer_products g j)
          (Finite Zero_mat, Finite Zero_vec, Finite 0) = Inr s'"
    using cost_body_returns[of _ world_points ray_origins outer_products g j] l
    by (intro for_loop_returns) simp
  then have 2: "ComputeCostMatrices world_points ray_origins outer_products g j
      a_matrix b_vector \<noteq> Inl OutOfBounds"
    using l by (auto simp add: ComputeCostMatrices_def split: ptr.splits)
  have 3: "UpnpSteps ray_origins ray_directions world_points \<noteq> Inl OutOfBounds"
    using UpnpSteps_returns[of ray_origins ray_directions world_points] l by auto
  then have 4: "Upnp ray_origins ray_directions world_points solution_rotations
      solution_translations \<noteq> Inl OutOfBounds"
    by (auto simp add: Upnp_def bind_result_def Let_def split: ptr.splits sum.splits)
  from 1 2 3 4 show ?thesis by simp
qed

theorem Upnp_indexing_in_bounds_witness:
  "length two_ray_origins = 2 \<and> length two_ray_directions = 2 \<and>
   length two_world_points = 2 \<and> length two_outer_products = 2 \<and>
   ComputeHelperMatrices two_world_points two_ray_origins two_outer_products
     (Finite Identity) (Ptr ()) (Ptr ()) \<noteq> Inl OutOfBounds \<and>
   ComputeCostMatrices two_world_points two_ray_origins two_outer_products
     (Finite Zero_mat) (Finite Zero_vec) (Ptr ()) (Ptr ()) \<noteq> Inl OutOfBounds \<and>
   UpnpSteps two_ray_origins two_ray_directions two_world_points \<noteq> Inl OutOfBounds \<and>
   Upnp two_ray_origins two_ray_directions two_world_points (Ptr []) (Ptr [])
     \<noteq> Inl OutOfBounds"
  using Upnp_indexing_in_bounds[of two_ray_origins 2 two_ray_directions two_world_points
      two_outer_products "Finite Identity" "Ptr ()" "Ptr ()" "Finite Zero_mat" "Finite Zero_vec"
      "Ptr ()" "Ptr ()" "Ptr []" "Ptr []"]
  by (simp add: two_lengths)

end
